theory Spec2Isabelle
  imports Complex_Main
begin

section \<open>Numbers of the viewer\<close>

text \<open>
  The viewer computes with JavaScript numbers. Finite values are taken as exact reals
  (rounding is not part of this development); the one non-finite value the viewer's own
  arithmetic can produce from finite inputs is NaN, from the remainder by a zero
  duration, so NaN is a value of the model and every operation propagates it as
  JavaScript does. Keyframe times, keyframe angles and clock readings are finite.
\<close>

datatype number = Num real | NaN

datatype js_error = TypeError

fun is_finite :: "number \<Rightarrow> bool" where
  "is_finite (Num x) = True"
| "is_finite NaN = False"

text \<open>\<open>a % b\<close>: the remainder has the sign of the dividend; the remainder by zero is NaN.\<close>

definition js_trunc :: "real \<Rightarrow> int" where
  "js_trunc x = (if 0 \<le> x then \<lfloor>x\<rfloor> else \<lceil>x\<rceil>)"

definition js_rem :: "real \<Rightarrow> real \<Rightarrow> number" where
  "js_rem a b = (if b = 0 then NaN else Num (a - b * of_int (js_trunc (a / b))))"

text \<open>Comparisons with NaN are false.\<close>

fun js_ge :: "number \<Rightarrow> real \<Rightarrow> bool" where
  "js_ge (Num x) y = (y \<le> x)"
| "js_ge NaN y = False"

fun js_le :: "number \<Rightarrow> real \<Rightarrow> bool" where
  "js_le (Num x) y = (x \<le> y)"
| "js_le NaN y = False"

fun num_sub :: "number \<Rightarrow> number \<Rightarrow> number" where
  "num_sub (Num x) (Num y) = Num (x - y)"
| "num_sub _ _ = NaN"

fun num_add :: "number \<Rightarrow> number \<Rightarrow> number" where
  "num_add (Num x) (Num y) = Num (x + y)"
| "num_add _ _ = NaN"

fun num_mul :: "number \<Rightarrow> number \<Rightarrow> number" where
  "num_mul (Num x) (Num y) = Num (x * y)"
| "num_mul _ _ = NaN"

text \<open>Division by a finite non-zero real (the viewer only divides by floored spans).\<close>

fun num_div :: "number \<Rightarrow> real \<Rightarrow> number" where
  "num_div (Num x) d = Num (x / d)"
| "num_div NaN d = NaN"

text \<open>\<open>Math.min\<close> and \<open>Math.max\<close> return NaN when an argument is NaN.\<close>

fun math_min :: "number \<Rightarrow> number \<Rightarrow> number" where
  "math_min (Num x) (Num y) = Num (min x y)"
| "math_min _ _ = NaN"

fun math_max :: "number \<Rightarrow> number \<Rightarrow> number" where
  "math_max (Num x) (Num y) = Num (max x y)"
| "math_max _ _ = NaN"

text \<open>
  Library functions of three.js, by their definitions there:
  \<open>MathUtils.lerp(x, y, t) = (1 - t) * x + t * y\<close>,
  \<open>MathUtils.clamp(v, lo, hi) = max(lo, min(hi, v))\<close>,
  \<open>MathUtils.degToRad(d) = d * (PI / 180)\<close>.
\<close>

definition lerp :: "number \<Rightarrow> number \<Rightarrow> number \<Rightarrow> number" where
  "lerp x y t = num_add (num_mul (num_sub (Num 1) t) x) (num_mul t y)"

definition clamp :: "real \<Rightarrow> real \<Rightarrow> real \<Rightarrow> real" where
  "clamp v lo hi = max lo (min hi v)"

definition degToRad :: "real \<Rightarrow> real" where
  "degToRad d = d * (pi / 180)"

section \<open>Clips, joints and the playback record\<close>

text \<open>
  \<open>type Keyframe = { time: number; joints: Record<string, number> }\<close> and
  \<open>type Clip = { name: string; loop?: boolean; frames: Keyframe[] }\<close>.
  A record of joints is an association list in key order (\<open>Object.keys\<close> order);
  an absent \<open>loop\<close> is falsy.
\<close>

record keyframe =
  ktime :: real
  kjoints :: "(string \<times> real) list"

record clip =
  cname :: string
  cloop :: bool
  cframes :: "keyframe list"

text \<open>
  A joint handle of the loaded robot. \<open>settable\<close> is
  \<open>typeof j.setJointValue === "function"\<close>; \<open>jointValue\<close> is optional in the
  handle's type. The loader's \<open>setJointValue\<close> is outside the repository and is
  taken to store the value it is given.
\<close>

record joint =
  settable :: bool
  jointValue :: "number option"

type_synonym joint_map = "string \<rightharpoonup> joint"

definition setJointValue :: "number \<Rightarrow> joint \<Rightarrow> joint" where
  "setJointValue v j = j\<lparr>jointValue := Some v\<rparr>"

record playback =
  pclip :: clip
  pstart :: real

subsection \<open>The state of one viewer\<close>

type_synonym vec3 = "real \<times> real \<times> real"

text \<open>\<open>Vector3.lerpVectors(v1, v2, alpha)\<close> of three.js: \<open>v1 + (v2 - v1) * alpha\<close> by component.\<close>

fun lerpVectors :: "vec3 \<Rightarrow> vec3 \<Rightarrow> real \<Rightarrow> vec3" where
  "lerpVectors (x1, y1, z1) (x2, y2, z2) a =
     (x1 + (x2 - x1) * a, y1 + (y2 - y1) * a, z1 + (z2 - z1) * a)"

text \<open>
  \<open>update()\<close> of the orbit controls (three.js \<open>OrbitControls\<close>, mounted by the
  viewer with \<open>maxPolarAngle = Math.PI * 0.48\<close> and the library's other limits),
  while the controls hold no pending rotation, zoom or pan. It reads the offset of the
  camera from the target as a radius, an azimuth \<open>theta = atan2(x, z)\<close> and a polar
  angle \<open>phi = acos(clamp(y / radius, -1, 1))\<close> (both 0 for a zero radius), clamps
  \<open>phi\<close> to \<open>[0, maxPolarAngle]\<close> and then to \<open>[EPS, PI - EPS]\<close> with
  \<open>EPS = 0.000001\<close>, and puts the camera back at
  \<open>target + (radius sin phi sin theta, radius cos phi, radius sin phi cos theta)\<close>.
  The azimuth enters only through its sine and cosine, which are \<open>x / h\<close> and
  \<open>z / h\<close> for the horizontal length \<open>h\<close> of the offset, and 0 and 1 when
  \<open>h\<close> is 0. The target is left where it is.
\<close>

definition maxPolarAngle :: real where
  "maxPolarAngle = pi * (48 / 100)"

definition orbit_update :: "vec3 \<Rightarrow> vec3 \<Rightarrow> vec3" where
  "orbit_update position target =
     (let (px, py, pz) = position; (tx, ty, tz) = target;
          x = px - tx; y = py - ty; z = pz - tz;
          radius = sqrt (x * x + y * y + z * z);
          h = sqrt (x * x + z * z);
          sin_theta = (if h = 0 then 0 else x / h);
          cos_theta = (if h = 0 then 1 else z / h);
          phi = (if radius = 0 then 0 else arccos (clamp (y / radius) (- 1) 1));
          phi1 = max 0 (min maxPolarAngle phi);
          phi2 = max (1 / 1000000) (min (pi - 1 / 1000000) phi1);
          sinPhiRadius = sin phi2 * radius
      in (tx + sinPhiRadius * sin_theta, ty + cos phi2 * radius, tz + sinPhiRadius * cos_theta))"


record head_target =
  hx :: real
  hy :: real
  hactive :: bool

record intro_cam_anim =
  ia_active :: bool
  ia_start :: real
  ia_duration :: real
  ia_from :: vec3
  ia_to :: vec3
  ia_target :: vec3

text \<open>What the closure \<open>animate\<close> of \<open>smoothReset\<close> captures.\<close>

record reset_closure =
  rc_startPos :: vec3
  rc_endPos :: vec3
  rc_startTarget :: vec3
  rc_endTarget :: vec3
  rc_start :: real

text \<open>The two callbacks the viewer hands to \<open>setTimeout\<close>.\<close>

datatype timer_callback = ResetView | WaveComplete

text \<open>
  The references of one \<open>FetchHeroViewer\<close>, the scene it draws into, the part of the
  browser that holds its pending timeouts and animation-frame requests, and counters
  of the calls it makes to the host page. The camera and the orbit controls always
  have a position and a target; \<open>cameraRef_set\<close> and \<open>controlsRef_set\<close> say whether
  the references to them are non-null. Handles start at 1, so a handle is truthy.
  Times of the browser clock (\<open>performance.now()\<close>) are in milliseconds.
\<close>

record viewer =
  robotRef :: "nat option"
  jointMapRef :: joint_map
  clipRef :: "playback option"
  headTargetRef :: head_target
  defaultTargetRef :: vec3
  defaultCamPosRef :: "vec3 option"
  camera_position :: vec3
  cameraRef_set :: bool
  controls_target :: vec3
  controlsRef_set :: bool
  resetAnimRef :: "nat option"
  introCamAnimRef :: intro_cam_anim
  idle_timeout :: "nat option"
  listening :: bool
  scene :: "nat list"
  next_object :: nat
  timers :: "(nat \<times> real \<times> timer_callback) list"
  animation_frames :: "(nat \<times> reset_closure) list"
  next_handle :: nat
  loaded_calls :: nat
  wave_complete_calls :: nat

subsection \<open>The clip block of the frame callback\<close>

text \<open>The loop over \<open>i = 0 .. frames.length - 2\<close> that stops at the first bracketing pair.\<close>

fun find_bracket :: "number \<Rightarrow> keyframe list \<Rightarrow> (keyframe \<times> keyframe) option" where
  "find_bracket t (a # b # rest) =
     (if js_ge t (ktime a) \<and> js_le t (ktime b) then Some (a, b)
      else find_bracket t (b # rest))"
| "find_bracket t [a] = None"
| "find_bracket t [] = None"

text \<open>\<open>f1\<close> and \<open>f2\<close> start as the first and last frame and are replaced by the bracket.\<close>

definition bracket :: "number \<Rightarrow> keyframe list \<Rightarrow> keyframe \<times> keyframe" where
  "bracket t fs = (case find_bracket t fs of Some p \<Rightarrow> p | None \<Rightarrow> (hd fs, last fs))"

definition span_of :: "keyframe \<Rightarrow> keyframe \<Rightarrow> real" where
  "span_of f1 f2 = max (1 / 1000) (ktime f2 - ktime f1)"

definition alpha_of :: "number \<Rightarrow> keyframe \<Rightarrow> keyframe \<Rightarrow> number" where
  "alpha_of t f1 f2 =
     math_min (Num 1) (math_max (Num 0) (num_div (num_sub t (Num (ktime f1))) (span_of f1 f2)))"

text \<open>\<open>new Set([...])\<close>: the keys in order of first occurrence.\<close>

fun uniq :: "string list \<Rightarrow> string list" where
  "uniq [] = []"
| "uniq (x # xs) = x # filter (\<lambda>y. y \<noteq> x) (uniq xs)"

definition jointNames :: "keyframe \<Rightarrow> keyframe \<Rightarrow> string list" where
  "jointNames f1 f2 = uniq (map fst (kjoints f1) @ map fst (kjoints f2))"

text \<open>\<open>f.joints[name] ?? 0\<close>.\<close>

definition joint_or_zero :: "keyframe \<Rightarrow> string \<Rightarrow> real" where
  "joint_or_zero f n = (case map_of (kjoints f) n of None \<Rightarrow> 0 | Some v \<Rightarrow> v)"

text \<open>The body of \<open>jointNames.forEach\<close>: a name without a settable handle is skipped.\<close>

definition write_joint :: "keyframe \<Rightarrow> keyframe \<Rightarrow> number \<Rightarrow> joint_map \<Rightarrow> string \<Rightarrow> joint_map" where
  "write_joint f1 f2 alpha jm n =
     (case jm n of
        None \<Rightarrow> jm
      | Some j \<Rightarrow>
          if \<not> settable j then jm
          else jm(n \<mapsto> setJointValue
                 (lerp (Num (joint_or_zero f1 n)) (Num (joint_or_zero f2 n)) alpha) j))"

definition effective_time :: "clip \<Rightarrow> real \<Rightarrow> real \<Rightarrow> number" where
  "effective_time c elapsed duration =
     (if cloop c then js_rem elapsed duration else Num (min elapsed duration))"

text \<open>
  The block guarded by \<open>robotRef.current && jointMapRef.current && clipRef.current\<close>
  (the joint map is always an object). \<open>now\<close> is \<open>nowSec()\<close>. Reading
  \<open>.time\<close> of the last frame of an empty clip throws.
\<close>

definition clip_block :: "real \<Rightarrow> viewer \<Rightarrow> js_error + viewer" where
  "clip_block now st =
     (case (robotRef st, clipRef st) of
        (Some r, Some pb) \<Rightarrow>
          (let c = pclip pb; fs = cframes c in
           if fs = [] then Inl TypeError
           else
             let elapsed = now - pstart pb;
                 duration = ktime (last fs);
                 t = effective_time c elapsed duration
             in if \<not> cloop c \<and> duration \<le> elapsed then Inr (st\<lparr>clipRef := None\<rparr>)
                else
                  let (f1, f2) = bracket t fs;
                      alpha = alpha_of t f1 f2
                  in Inr (st\<lparr>jointMapRef :=
                             foldl (write_joint f1 f2 alpha) (jointMapRef st) (jointNames f1 f2)\<rparr>))
      | _ \<Rightarrow> Inr st)"

subsection \<open>Camera easing and the remaining blocks of the frame callback\<close>

text \<open>\<open>t < 0.5 ? 2 * t * t : -1 + (4 - 2 * t) * t\<close>, as both camera animations write it.\<close>

definition eased :: "real \<Rightarrow> real" where
  "eased t = (if t < 1 / 2 then 2 * t * t else - 1 + (4 - 2 * t) * t)"


text \<open>
  The intro camera drift, active only while interaction is disabled. The animation is
  only ever active with the duration 3500 that \<open>onIntroCamera\<close> gives it.
\<close>

definition intro_block :: "bool \<Rightarrow> real \<Rightarrow> viewer \<Rightarrow> viewer" where
  "intro_block enableInteraction now_ms v =
     (let ia = introCamAnimRef v in
      if \<not> enableInteraction \<and> ia_active ia then
        let t = min 1 ((now_ms - ia_start ia) / ia_duration ia);
            v1 = v\<lparr>camera_position := lerpVectors (ia_from ia) (ia_to ia) (eased t)\<rparr>
        in if 1 \<le> t then v1\<lparr>introCamAnimRef := ia\<lparr>ia_active := False\<rparr>\<rparr> else v1
      else v)"

text \<open>"Ensure defaults captured for reset".\<close>

definition capture_defaults :: "viewer \<Rightarrow> viewer" where
  "capture_defaults v =
     (let v1 = (case defaultCamPosRef v of
                  None \<Rightarrow> v\<lparr>defaultCamPosRef := Some (camera_position v)\<rparr>
                | Some d \<Rightarrow> v)
      in if defaultTargetRef v1 = (0, 0, 0) then v1\<lparr>defaultTargetRef := (0, 1, 0)\<rparr> else v1)"

text \<open>
  One head joint of "Head/eye follow": \<open>current = j.jointValue ?? 0\<close>, then
  \<open>j.setJointValue(lerp(current, desired, k))\<close>. The hero viewer smooths with
  \<open>k = 0.12\<close>; the variant without the interaction switch uses \<open>0.25\<close>.
\<close>

definition follow_joint :: "string \<Rightarrow> real \<Rightarrow> real \<Rightarrow> joint_map \<Rightarrow> joint_map" where
  "follow_joint n desired k jm =
     (case jm n of
        None \<Rightarrow> jm
      | Some j \<Rightarrow>
          if \<not> settable j then jm
          else jm(n \<mapsto> setJointValue
                 (lerp (case jointValue j of None \<Rightarrow> Num 0 | Some c \<Rightarrow> c) (Num desired) (Num k)) j))"

definition head_follow :: "real \<Rightarrow> bool \<Rightarrow> head_target \<Rightarrow> joint_map \<Rightarrow> joint_map" where
  "head_follow k enableInteraction ht jm =
     (if enableInteraction then
        let targetX = clamp (if hactive ht then hx ht else 0) (- 1) 1;
            desiredPan = degToRad (targetX * 50);
            targetY = clamp (if hactive ht then hy ht else 0) (- 1) 1;
            desiredTilt = degToRad (targetY * 30)
        in follow_joint ''head_tilt_joint'' desiredTilt k
             (follow_joint ''head_pan_joint'' desiredPan k jm)
      else jm)"

definition hero_smoothing :: real where
  "hero_smoothing = 12 / 100"

text \<open>The whole frame callback of \<open>ClipRunner\<close> in the hero viewer.\<close>

definition clipRunner_frame :: "bool \<Rightarrow> real \<Rightarrow> viewer \<Rightarrow> js_error + viewer" where
  "clipRunner_frame enableInteraction now_ms v =
     (case clip_block (now_ms / 1000) (intro_block enableInteraction now_ms v) of
        Inl e \<Rightarrow> Inl e
      | Inr v1 \<Rightarrow>
          (let v2 = capture_defaults v1
           in Inr (v2\<lparr>jointMapRef :=
                       head_follow hero_smoothing enableInteraction (headTargetRef v2) (jointMapRef v2)\<rparr>)))"

section \<open>Timers, animation frames and the inactivity reset\<close>

text \<open>
  The browser keeps the pending timeouts, each with its handle, the time it is due and
  its callback, and the pending animation-frame requests, each with its handle and the
  closure to run. \<open>setTimeout\<close> and \<open>requestAnimationFrame\<close> hand out fresh
  handles; \<open>clearTimeout\<close> and \<open>cancelAnimationFrame\<close> drop the entry of a handle.
\<close>

definition setTimeout :: "timer_callback \<Rightarrow> real \<Rightarrow> real \<Rightarrow> viewer \<Rightarrow> nat \<times> viewer" where
  "setTimeout cb delay now_ms v =
     (next_handle v,
      v\<lparr>timers := timers v @ [(next_handle v, now_ms + delay, cb)],
        next_handle := Suc (next_handle v)\<rparr>)"

definition clearTimeout :: "nat \<Rightarrow> viewer \<Rightarrow> viewer" where
  "clearTimeout h v = v\<lparr>timers := filter (\<lambda>e. fst e \<noteq> h) (timers v)\<rparr>"

definition requestAnimationFrame :: "reset_closure \<Rightarrow> viewer \<Rightarrow> nat \<times> viewer" where
  "requestAnimationFrame cl v =
     (next_handle v,
      v\<lparr>animation_frames := animation_frames v @ [(next_handle v, cl)],
        next_handle := Suc (next_handle v)\<rparr>)"

definition cancelAnimationFrame :: "nat \<Rightarrow> viewer \<Rightarrow> viewer" where
  "cancelAnimationFrame h v = v\<lparr>animation_frames := filter (\<lambda>e. fst e \<noteq> h) (animation_frames v)\<rparr>"

text \<open>
  One run of \<open>animate\<close>. It writes the camera position first, then reads
  \<open>controlsRef.current.target\<close>, which throws should the reference have become
  null; otherwise it writes the target and calls \<open>controls.update()\<close>.
\<close>

definition animate :: "reset_closure \<Rightarrow> real \<Rightarrow> viewer \<Rightarrow> viewer \<times> js_error option" where
  "animate cl now_ms v =
     (let t = min 1 ((now_ms - rc_start cl) / 1200);
          e = eased t;
          v1 = v\<lparr>camera_position := lerpVectors (rc_startPos cl) (rc_endPos cl) e\<rparr>
      in if \<not> controlsRef_set v1 then (v1, Some TypeError)
         else
           let v2 = v1\<lparr>controls_target := lerpVectors (rc_startTarget cl) (rc_endTarget cl) e\<rparr>;
               v3 = v2\<lparr>camera_position := orbit_update (camera_position v2) (controls_target v2)\<rparr>
           in if t < 1 then
                (let (h, v4) = requestAnimationFrame cl v3 in (v4\<lparr>resetAnimRef := Some h\<rparr>, None))
              else (v3\<lparr>resetAnimRef := None\<rparr>, None))"

text \<open>
  \<open>smoothReset\<close> returns at once unless the default camera position, the camera and
  the controls are all there; it cancels the animation frame it still holds a handle of
  and requests the first frame of a new animation.
\<close>

definition smoothReset :: "real \<Rightarrow> viewer \<Rightarrow> viewer" where
  "smoothReset now_ms v =
     (case defaultCamPosRef v of
        None \<Rightarrow> v
      | Some d \<Rightarrow>
          if cameraRef_set v \<and> controlsRef_set v then
            let v1 = (case resetAnimRef v of Some h \<Rightarrow> cancelAnimationFrame h v | None \<Rightarrow> v);
                cl = \<lparr>rc_startPos = camera_position v1, rc_endPos = d,
                      rc_startTarget = controls_target v1, rc_endTarget = defaultTargetRef v1,
                      rc_start = now_ms\<rparr>;
                (h, v2) = requestAnimationFrame cl v1
            in v2\<lparr>resetAnimRef := Some h\<rparr>
          else v)"

definition resetTimer :: "real \<Rightarrow> viewer \<Rightarrow> viewer" where
  "resetTimer now_ms v =
     (let v1 = (case idle_timeout v of Some h \<Rightarrow> clearTimeout h v | None \<Rightarrow> v);
          (h, v2) = setTimeout ResetView 2000 now_ms v1
      in v2\<lparr>idle_timeout := Some h\<rparr>)"

text \<open>
  The body of the inactivity effect; \<open>node_present\<close> is \<open>containerRef.current\<close>
  being non-null. Its cleanup clears the inactivity timeout and removes the listeners.
\<close>

definition inactivity_effect :: "bool \<Rightarrow> bool \<Rightarrow> real \<Rightarrow> viewer \<Rightarrow> viewer" where
  "inactivity_effect enableInteraction node_present now_ms v =
     (if \<not> enableInteraction then v
      else if \<not> node_present then v
      else (resetTimer now_ms v)\<lparr>listening := True\<rparr>)"

definition inactivity_cleanup :: "viewer \<Rightarrow> viewer" where
  "inactivity_cleanup v =
     (let v1 = (case idle_timeout v of Some h \<Rightarrow> clearTimeout h v | None \<Rightarrow> v)
      in v1\<lparr>listening := False\<rparr>)"

text \<open>The cleanup of the effect of \<open>FetchRobot\<close>.\<close>

definition fetchRobot_cleanup :: "viewer \<Rightarrow> viewer" where
  "fetchRobot_cleanup v =
     (case robotRef v of
        Some r \<Rightarrow> v\<lparr>scene := filter (\<lambda>x. x \<noteq> r) (scene v)\<rparr>
      | None \<Rightarrow> v)"

subsection \<open>What the browser and the page do to a viewer\<close>

text \<open>
  \<open>pointermove\<close>, \<open>wheel\<close>, \<open>touchstart\<close>, \<open>pointerdown\<close> and \<open>pointerenter\<close>
  on the container all run \<open>handleMove\<close>, which is \<open>resetTimer\<close>.
\<close>

definition pointer_event :: "real \<Rightarrow> viewer \<Rightarrow> viewer" where
  "pointer_event now_ms v = (if listening v then resetTimer now_ms v else v)"

fun run_callback :: "timer_callback \<Rightarrow> real \<Rightarrow> viewer \<Rightarrow> viewer" where
  "run_callback ResetView now_ms v = smoothReset now_ms v"
| "run_callback WaveComplete now_ms v = v\<lparr>wave_complete_calls := Suc (wave_complete_calls v)\<rparr>"

text \<open>A pending timeout whose time has come is taken off the list and its callback runs.\<close>

definition fire_timer :: "nat \<Rightarrow> real \<Rightarrow> viewer \<Rightarrow> viewer" where
  "fire_timer h now_ms v =
     (case find (\<lambda>e. fst e = h) (timers v) of
        None \<Rightarrow> v
      | Some (i, due, cb) \<Rightarrow>
          if due \<le> now_ms then run_callback cb now_ms (clearTimeout h v) else v)"

text \<open>
  A browser frame runs the callbacks requested since the last one; a request made
  during the frame waits for the next. A callback that throws does not stop the others.
\<close>

definition run_frame :: "real \<Rightarrow> viewer \<Rightarrow> viewer" where
  "run_frame now_ms v =
     foldl (\<lambda>s e. fst (animate (snd e) now_ms s)) (v\<lparr>animation_frames := []\<rparr>) (animation_frames v)"

text \<open>
  Unmounting runs the cleanups of the effects that touch the viewer's state, the one
  of the inactivity effect and the one of \<open>FetchRobot\<close>, and React sets the
  reference to the unmounted orbit controls to null.
\<close>

definition unmount :: "viewer \<Rightarrow> viewer" where
  "unmount v = (fetchRobot_cleanup (inactivity_cleanup v))\<lparr>controlsRef_set := False\<rparr>"

section \<open>Loading the robot\<close>

text \<open>
  What the viewer uses of a loaded robot: its joints (\<open>robot.joints\<close>, which the
  viewer reads as \<open>robot.joints ?? {}\<close>) and the centre and size of the bounding box
  three.js computes for the rotated clone.
\<close>

record robot_template =
  tjoints :: "joint_map option"
  tcenter :: vec3
  tsize :: vec3

datatype 'a promise_state = Pending | Fulfilled 'a | Rejected

text \<open>
  The module of the viewer: the variable \<open>fetchPreload\<close>, the promises created so far
  (a promise is its index) and the calls of \<open>loader.load\<close> issued so far, each with
  the working path and the URL it was given.
\<close>

record loader_module =
  fetchPreload :: "nat option"
  promises :: "robot_template option promise_state list"
  load_calls :: "(string \<times> string) list"

definition initial_module :: loader_module where
  "initial_module = \<lparr>fetchPreload = None, promises = [], load_calls = []\<rparr>"

definition ensureFetchPreload :: "string \<Rightarrow> string \<Rightarrow> loader_module \<Rightarrow> nat \<times> loader_module" where
  "ensureFetchPreload assetsBase urdfUrl m =
     (case fetchPreload m of
        Some p \<Rightarrow> (p, m)
      | None \<Rightarrow>
          (let p = length (promises m)
           in (p, m\<lparr>fetchPreload := Some p,
                    promises := promises m @ [Pending],
                    load_calls := load_calls m @ [(assetsBase, urdfUrl)]\<rparr>)))"

text \<open>Successive calls, in order, with the promise each caller gets.\<close>

fun ensure_all :: "(string \<times> string) list \<Rightarrow> loader_module \<Rightarrow> nat list \<times> loader_module" where
  "ensure_all [] m = ([], m)"
| "ensure_all ((assetsBase, urdfUrl) # cs) m =
     (let (p, m1) = ensureFetchPreload assetsBase urdfUrl m;
          (ps, m2) = ensure_all cs m1
      in (p # ps, m2))"

text \<open>\<open>resolve\<close> of a promise: only a pending promise changes.\<close>

definition resolve :: "nat \<Rightarrow> robot_template option \<Rightarrow> loader_module \<Rightarrow> loader_module" where
  "resolve p x m =
     (if p < length (promises m) \<and> promises m ! p = Pending
      then m\<lparr>promises := (promises m)[p := Fulfilled x]\<rparr> else m)"

text \<open>
  The two callbacks the executor passes to \<open>loader.load\<close>:
  \<open>(robot) => resolve(robot)\<close> and \<open>() => resolve(null)\<close>.
\<close>

datatype load_event = OnLoad robot_template | OnError

fun loader_callback :: "nat \<Rightarrow> load_event \<Rightarrow> loader_module \<Rightarrow> loader_module" where
  "loader_callback p (OnLoad robot) m = resolve p (Some robot) m"
| "loader_callback p OnError m = resolve p None m"

subsection \<open>The hero viewer's callbacks and the consumer of the promise\<close>

definition introCamStart :: vec3 where "introCamStart = (1 / 2, 1, 0)"
definition introCamEnd :: vec3 where "introCamEnd = (2, 1, 0)"
definition introCamTarget :: vec3 where "introCamTarget = (0, 1, 0)"
definition introCamDuration :: real where "introCamDuration = 3500"

definition introPoseClip :: clip where
  "introPoseClip = \<lparr>cname = ''intro-pose'', cloop = False, cframes =
     [\<lparr>ktime = 0, kjoints =
         [(''shoulder_pan_joint'', 181 / 100), (''shoulder_lift_joint'', 2),
          (''elbow_flex_joint'', 171 / 100), (''wrist_flex_joint'', 15 / 10),
          (''wrist_roll_joint'', 5 / 100), (''torso_lift_joint'', 3 / 100),
          (''upperarm_roll_joint'', 12 / 100)]\<rparr>,
      \<lparr>ktime = 8 / 10, kjoints =
         [(''shoulder_pan_joint'', 181 / 100), (''shoulder_lift_joint'', 2),
          (''elbow_flex_joint'', 171 / 100), (''wrist_flex_joint'', 15 / 10),
          (''wrist_roll_joint'', 5 / 100), (''torso_lift_joint'', 1 / 10),
          (''upperarm_roll_joint'', - (307 / 100))]\<rparr>,
      \<lparr>ktime = 5, kjoints =
         [(''shoulder_pan_joint'', - (3 / 10)), (''shoulder_lift_joint'', - (7 / 10)),
          (''elbow_flex_joint'', - (9 / 10)), (''wrist_flex_joint'', 4 / 10),
          (''wrist_roll_joint'', - (6 / 10)), (''torso_lift_joint'', 5 / 100)]\<rparr>]\<rparr>"

definition playClip :: "clip \<Rightarrow> real \<Rightarrow> viewer \<Rightarrow> viewer" where
  "playClip c now_ms v = v\<lparr>clipRef := Some \<lparr>pclip = c, pstart = now_ms / 1000\<rparr>\<rparr>"

definition onIntroCamera :: "real \<Rightarrow> viewer \<Rightarrow> viewer" where
  "onIntroCamera now_ms v =
     (let v1 = (if cameraRef_set v then v\<lparr>camera_position := introCamStart\<rparr> else v);
          v2 = (if controlsRef_set v1
                then v1\<lparr>controls_target := introCamTarget,
                        camera_position := orbit_update (camera_position v1) introCamTarget\<rparr>
                else v1)
      in v2\<lparr>defaultTargetRef := introCamTarget,
            defaultCamPosRef := Some introCamEnd,
            introCamAnimRef :=
              \<lparr>ia_active = True, ia_start = now_ms, ia_duration = introCamDuration,
               ia_from = introCamStart, ia_to = introCamEnd, ia_target = introCamTarget\<rparr>\<rparr>)"

text \<open>
  \<open>onReady\<close> of the hero viewer (it ignores the joint names it is given): report the
  load, play the intro pose, and schedule \<open>onWaveComplete\<close>; the handle of that
  timeout is not kept.
\<close>

definition onReady :: "real \<Rightarrow> viewer \<Rightarrow> viewer" where
  "onReady now_ms v =
     (let v1 = v\<lparr>loaded_calls := Suc (loaded_calls v)\<rparr>;
          v2 = playClip introPoseClip now_ms v1;
          introMs = ktime (last (cframes introPoseClip)) * 1000
      in snd (setTimeout WaveComplete (introMs + 1000) now_ms v2))"

text \<open>The callback \<open>FetchRobot\<close> passes to \<open>then\<close>.\<close>

definition on_preloaded :: "real \<Rightarrow> robot_template option \<Rightarrow> viewer \<Rightarrow> viewer" where
  "on_preloaded now_ms preloaded v =
     (case preloaded of
        None \<Rightarrow> v
      | Some tpl \<Rightarrow>
          (let robot = next_object v;
               v1 = v\<lparr>scene := scene v @ [robot], next_object := Suc robot,
                      robotRef := Some robot,
                      jointMapRef := (case tjoints tpl of None \<Rightarrow> Map.empty | Some js \<Rightarrow> js)\<rparr>;
               (sx, sy, sz) = tsize tpl;
               (cx, cy, cz) = tcenter tpl;
               v2 = v1\<lparr>headTargetRef := \<lparr>hx = 0, hy = 0, hactive = False\<rparr>\<rparr>;
               maxDim = max sx (max sy sz);
               radius = max (1 / 2) (if maxDim = 0 then 1 else maxDim);
               v3 = v2\<lparr>camera_position := (cx, cy + 1, cz + radius * 1)\<rparr>
           in onReady now_ms (onIntroCamera now_ms v3)))"

text \<open>
  \<open>ensureFetchPreload(...).then(callback)\<close> with no rejection handler: the callback
  runs once the promise is fulfilled, and not at all on a pending or rejected one.
\<close>

fun then_preloaded :: "real \<Rightarrow> robot_template option promise_state \<Rightarrow> viewer \<Rightarrow> viewer" where
  "then_preloaded now_ms (Fulfilled x) v = on_preloaded now_ms x v"
| "then_preloaded now_ms Pending v = v"
| "then_preloaded now_ms Rejected v = v"

section \<open>Concrete clips and viewers\<close>

definition plain_joint :: joint where
  "plain_joint = \<lparr>settable = True, jointValue = None\<rparr>"

definition fresh_viewer :: viewer where
  "fresh_viewer =
     \<lparr>robotRef = None, jointMapRef = Map.empty, clipRef = None,
      headTargetRef = \<lparr>hx = 0, hy = 0, hactive = False\<rparr>,
      defaultTargetRef = (0, 1, 0), defaultCamPosRef = None,
      camera_position = (25 / 10, 15 / 10, 25 / 10), cameraRef_set = True,
      controls_target = (0, 0, 0), controlsRef_set = True,
      resetAnimRef = None,
      introCamAnimRef = \<lparr>ia_active = False, ia_start = 0, ia_duration = 0,
                          ia_from = (0, 0, 0), ia_to = (0, 0, 0), ia_target = (0, 0, 0)\<rparr>,
      idle_timeout = None, listening = False, scene = [], next_object = 0,
      timers = [], animation_frames = [], next_handle = 1,
      loaded_calls = 0, wave_complete_calls = 0\<rparr>"

text \<open>Reading \<open>j.jointValue\<close> of a named joint of the viewer.\<close>

definition joint_angle :: "viewer \<Rightarrow> string \<Rightarrow> number option" where
  "joint_angle v n = (case jointMapRef v n of None \<Rightarrow> None | Some j \<Rightarrow> jointValue j)"

text \<open>The two-keyframe clip of the specification's scenario, not looping, started at time 0.\<close>

definition scenario_clip :: clip where
  "scenario_clip = \<lparr>cname = ''scenario'', cloop = False,
     cframes = [\<lparr>ktime = 0, kjoints = [(''a'', 0)]\<rparr>, \<lparr>ktime = 1, kjoints = [(''a'', 1)]\<rparr>]\<rparr>"

definition scenario_viewer :: viewer where
  "scenario_viewer = fresh_viewer\<lparr>robotRef := Some 0, jointMapRef := [''a'' \<mapsto> plain_joint],
     clipRef := Some \<lparr>pclip = scenario_clip, pstart = 0\<rparr>\<rparr>"

text \<open>The same viewer after the frame at half a second has written joint \<open>a\<close>.\<close>

definition half_viewer :: viewer where
  "half_viewer = scenario_viewer\<lparr>jointMapRef :=
     [''a'' \<mapsto> plain_joint\<lparr>jointValue := Some (Num (1 / 2))\<rparr>]\<rparr>"

text \<open>A clip whose first keyframe is at one second and whose keyframes name different joints.\<close>

definition late_clip :: clip where
  "late_clip = \<lparr>cname = ''late'', cloop = False,
     cframes = [\<lparr>ktime = 1, kjoints = [(''a'', 1)]\<rparr>, \<lparr>ktime = 2, kjoints = [(''b'', 5)]\<rparr>]\<rparr>"

definition late_viewer :: viewer where
  "late_viewer = fresh_viewer\<lparr>robotRef := Some 0,
     jointMapRef := [''a'' \<mapsto> plain_joint, ''b'' \<mapsto> plain_joint],
     clipRef := Some \<lparr>pclip = late_clip, pstart = 0\<rparr>\<rparr>"

text \<open>A looping clip with a single keyframe at time 0: its duration is 0.\<close>

definition still_clip :: clip where
  "still_clip = \<lparr>cname = ''still'', cloop = True,
     cframes = [\<lparr>ktime = 0, kjoints = [(''a'', 1)]\<rparr>]\<rparr>"

definition still_viewer :: viewer where
  "still_viewer = fresh_viewer\<lparr>robotRef := Some 0, jointMapRef := [''a'' \<mapsto> plain_joint],
     clipRef := Some \<lparr>pclip = still_clip, pstart = 0\<rparr>\<rparr>"

text \<open>
  The \<open>reset\<close> clip of the demo page, whose frame callback has the same clip block:
  one keyframe at time 0 holding the base pose. \<open>reset_viewer\<close> plays it from time 0
  on a robot whose shoulder-pan joint stands at 0.6.
\<close>

definition basePose :: "(string \<times> real) list" where
  "basePose =
     [(''shoulder_pan_joint'', 12 / 10), (''shoulder_lift_joint'', - (3 / 10)),
      (''elbow_flex_joint'', - (2 / 10)), (''forearm_roll_joint'', 0),
      (''wrist_flex_joint'', 0), (''wrist_roll_joint'', 0)]"

definition reset_clip :: clip where
  "reset_clip = \<lparr>cname = ''reset'', cloop = False,
     cframes = [\<lparr>ktime = 0, kjoints = basePose\<rparr>]\<rparr>"

definition reset_viewer :: viewer where
  "reset_viewer = fresh_viewer\<lparr>robotRef := Some 0,
     jointMapRef := [''shoulder_pan_joint'' \<mapsto> plain_joint\<lparr>jointValue := Some (Num (6 / 10))\<rparr>],
     clipRef := Some \<lparr>pclip = reset_clip, pstart = 0\<rparr>\<rparr>"

text \<open>
  The hero viewer playing its intro pose from time 0, on a robot that has the
  upper-arm roll joint; the clip's last keyframe does not name that joint.
\<close>

definition intro_viewer :: viewer where
  "intro_viewer = fresh_viewer\<lparr>robotRef := Some 0,
     jointMapRef := [''upperarm_roll_joint'' \<mapsto> plain_joint],
     clipRef := Some \<lparr>pclip = introPoseClip, pstart = 0\<rparr>\<rparr>"


definition head_joints :: joint_map where
  "head_joints =
     [''head_pan_joint'' \<mapsto> \<lparr>settable = True, jointValue = Some (Num 0)\<rparr>,
      ''head_tilt_joint'' \<mapsto> \<lparr>settable = True, jointValue = Some (Num 0)\<rparr>]"

text \<open>
  A loaded robot, and the hero viewer after its mount at time 0 (interaction enabled,
  container present) and the fulfilment of the load at 100 ms. \<open>resetting_viewer\<close> is
  that viewer after the inactivity timeout has fired at 2000 ms and the first frame of
  the reset animation has run at 2300 ms.
\<close>

definition fetch_template :: robot_template where
  "fetch_template = \<lparr>tjoints = Some head_joints, tcenter = (0, 1 / 2, 0), tsize = (1, 1, 1)\<rparr>"

definition idle_viewer :: viewer where
  "idle_viewer =
     then_preloaded 100 (Fulfilled (Some fetch_template)) (inactivity_effect True True 0 fresh_viewer)"

definition resetting_viewer :: viewer where
  "resetting_viewer = run_frame 2300 (fire_timer 1 2000 idle_viewer)"


text \<open>
  The camera position at distance \<open>r\<close> from the look target \<open>(0, 1, 0)\<close>, in the
  plane \<open>z = 0\<close> on the side of positive \<open>x\<close>, at the largest polar angle the orbit
  controls allow. With \<open>sin (0.48 pi)\<close> about 0.998 and \<open>cos (0.48 pi)\<close> about
  0.063, \<open>limit_pose 2\<close> is about \<open>(1.996, 1.126, 0)\<close>.
\<close>

definition limit_pose :: "real \<Rightarrow> vec3" where
  "limit_pose r = (r * sin maxPolarAngle, 1 + r * cos maxPolarAngle, 0)"

text \<open>
  What the closure \<open>animate\<close> captures when the inactivity timeout of \<open>idle_viewer\<close>
  fires at 2000 ms: the camera stands where \<open>update()\<close> in \<open>onIntroCamera\<close> has
  put it, and the recorded default pose is \<open>(2, 1, 0)\<close> looking at \<open>(0, 1, 0)\<close>.
\<close>

definition reset_from_idle :: reset_closure where
  "reset_from_idle = \<lparr>rc_startPos = limit_pose (1 / 2), rc_endPos = (2, 1, 0),
     rc_startTarget = (0, 1, 0), rc_endTarget = (0, 1, 0), rc_start = 2000\<rparr>"

section \<open>Properties of clip playback\<close>

lemmas clip_defs = clip_block_def effective_time_def bracket_def alpha_of_def span_of_def
  jointNames_def write_joint_def plain_joint_def setJointValue_def lerp_def joint_or_zero_def

lemma set_uniq: "set (uniq xs) = set xs"
  by (induction xs) auto

lemma write_joint_other: "m \<noteq> n \<Longrightarrow> write_joint f1 f2 al jm n m = jm m"
  by (simp add: write_joint_def split: option.splits)

lemma write_joint_same:
  "write_joint f1 f2 al jm n n =
     (case jm n of
        None \<Rightarrow> None
      | Some j \<Rightarrow>
          if settable j
          then Some (setJointValue (lerp (Num (joint_or_zero f1 n)) (Num (joint_or_zero f2 n)) al) j)
          else Some j)"
  by (simp add: write_joint_def split: option.splits)

lemma write_joint_twice:
  "write_joint f1 f2 al (write_joint f1 f2 al jm n) m m = write_joint f1 f2 al jm m m"
  by (cases "m = n") (auto simp add: write_joint_def setJointValue_def split: option.splits)

text \<open>The loop over the joint names writes each named joint once and touches no other.\<close>

lemma foldl_write_joint:
  "foldl (write_joint f1 f2 al) jm ns m =
     (if m \<in> set ns then write_joint f1 f2 al jm m m else jm m)"
proof (induction ns arbitrary: jm)
  case Nil
  then show ?case by simp
next
  case (Cons n ns)
  have step: "foldl (write_joint f1 f2 al) jm (n # ns) m =
      (if m \<in> set ns then write_joint f1 f2 al (write_joint f1 f2 al jm n) m m
       else write_joint f1 f2 al jm n m)"
    using Cons.IH[of "write_joint f1 f2 al jm n"] by simp
  show ?case
  proof (cases "m = n")
    case True
    then show ?thesis unfolding step by (simp add: write_joint_twice)
  next
    case False
    then show ?thesis unfolding step by (simp add: write_joint_twice write_joint_other)
  qed
qed

text \<open>An unfinished frame of an active clip writes the joints of the bracket it finds.\<close>

lemma clip_block_unfinished:
  assumes "robotRef st = Some r" and "clipRef st = Some pb"
    and "cframes (pclip pb) \<noteq> []"
    and "cloop (pclip pb) \<or> now - pstart pb < ktime (last (cframes (pclip pb)))"
    and "bracket (effective_time (pclip pb) (now - pstart pb) (ktime (last (cframes (pclip pb)))))
           (cframes (pclip pb)) = (f1, f2)"
  shows "clip_block now st =
           Inr (st\<lparr>jointMapRef := foldl (write_joint f1 f2
                  (alpha_of (effective_time (pclip pb) (now - pstart pb)
                     (ktime (last (cframes (pclip pb))))) f1 f2))
                  (jointMapRef st) (jointNames f1 f2)\<rparr>)"
  using assms by (auto simp add: clip_block_def Let_def)

lemma find_bracket_before:
  "\<forall>f \<in> set fs. x < ktime f \<Longrightarrow> find_bracket (Num x) fs = None"
  by (induction "Num x" fs rule: find_bracket.induct) auto

lemma sorted_hd_least:
  "sorted (map ktime fs) \<Longrightarrow> fs \<noteq> [] \<Longrightarrow> f \<in> set fs \<Longrightarrow> ktime (hd fs) \<le> ktime f"
  by (cases fs) auto

lemma alpha_before:
  assumes "x < ktime f1"
  shows "alpha_of (Num x) f1 f2 = Num 0"
proof -
  have "0 < span_of f1 f2" by (simp add: span_of_def)
  moreover have "x - ktime f1 < 0" using assms by simp
  ultimately have "(x - ktime f1) / span_of f1 f2 < 0"
    by (simp add: divide_neg_pos)
  then show ?thesis by (simp add: alpha_of_def)
qed

lemma lerp_zero: "lerp (Num a) (Num b) (Num 0) = Num a"
  by (simp add: lerp_def)

lemma js_rem_below:
  assumes "0 < d" and "js_rem e d = Num x"
  shows "x < d"
proof -
  have x: "x = e - d * of_int (js_trunc (e / d))"
    using assms by (simp add: js_rem_def)
  show ?thesis
  proof (cases "0 \<le> e / d")
    case True
    have "e / d < of_int \<lfloor>e / d\<rfloor> + 1" by linarith
    then have "e < (of_int \<lfloor>e / d\<rfloor> + 1) * d"
      using pos_divide_less_eq[OF assms(1)] by blast
    then show ?thesis using True x by (simp add: js_trunc_def algebra_simps)
  next
    case False
    have "e / d \<le> of_int \<lceil>e / d\<rceil>" by linarith
    then have "e \<le> of_int \<lceil>e / d\<rceil> * d"
      using pos_divide_le_eq[OF assms(1)] by blast
    then show ?thesis using False x assms(1) by (simp add: js_trunc_def algebra_simps)
  qed
qed

text \<open>With a duration that is not negative, the effective time is never past the duration.\<close>

lemma effective_time_not_after_last:
  assumes "0 \<le> d" and "effective_time c e d = Num x"
  shows "x \<le> d"
proof (cases "cloop c")
  case True
  then have r: "js_rem e d = Num x" using assms(2) by (simp add: effective_time_def)
  then have "d \<noteq> 0" by (auto simp add: js_rem_def)
  then have "0 < d" using assms(1) by simp
  from js_rem_below[OF this r] show ?thesis by simp
next
  case False
  then show ?thesis using assms(2) by (auto simp add: effective_time_def)
qed

subsection \<open>C1: the frame that finishes a clip\<close>

text \<open>
  A frame that finds a non-looping clip at or past its duration clears the clip and
  changes nothing else: no joint is written.
\<close>

lemma finished_frame_only_clears:
  assumes "robotRef st = Some r" and "clipRef st = Some pb"
    and "\<not> cloop (pclip pb)" and "cframes (pclip pb) \<noteq> []"
    and "ktime (last (cframes (pclip pb))) \<le> now - pstart pb"
  shows "clip_block now st = Inr (st\<lparr>clipRef := None\<rparr>)"
  using assms by (simp add: clip_block_def Let_def)

text \<open>
  C1 fails on the code. In the scenario clip, the frame at 2 seconds finds the clip
  finished, clears it and writes no joint: joint \<open>a\<close> keeps the 0.5 that the frame at
  half a second wrote and does not receive the last keyframe's value 1. In the same
  way the \<open>reset\<close> clip, whose duration is 0, is finished at its first frame, 16 ms
  after its start, and the shoulder-pan joint keeps its 0.6 instead of the base pose's
  1.2.
\<close>

theorem finished_tick_writes_no_sample:
  "clip_block 2 half_viewer = Inr (half_viewer\<lparr>clipRef := None\<rparr>)
   \<and> joint_angle (half_viewer\<lparr>clipRef := None\<rparr>) ''a'' = Some (Num (1 / 2))
   \<and> map_of (kjoints (last (cframes scenario_clip))) ''a'' = Some 1
   \<and> clip_block (16 / 1000) reset_viewer = Inr (reset_viewer\<lparr>clipRef := None\<rparr>)
   \<and> joint_angle (reset_viewer\<lparr>clipRef := None\<rparr>) ''shoulder_pan_joint'' = Some (Num (6 / 10))
   \<and> map_of (kjoints (last (cframes reset_clip))) ''shoulder_pan_joint'' = Some (12 / 10)"
  by (simp add: clip_block_def half_viewer_def scenario_viewer_def scenario_clip_def
      reset_viewer_def reset_clip_def basePose_def joint_angle_def plain_joint_def)

subsection \<open>C6: the value an unfinished frame writes\<close>

text \<open>
  What the search for the bracket returns. It is the first adjacent pair of keyframes
  \<open>(frames[i], frames[i + 1])\<close> with \<open>frames[i].time \<le> t \<le> frames[i + 1].time\<close>, and
  nothing when no adjacent pair encloses \<open>t\<close>; conversely, a pair it returns is such
  a first enclosing pair.
\<close>

lemma find_bracket_first:
  assumes "i + 1 < length fs"
    and "js_ge t (ktime (fs ! i))" and "js_le t (ktime (fs ! (i + 1)))"
    and "\<forall>j<i. \<not> (js_ge t (ktime (fs ! j)) \<and> js_le t (ktime (fs ! (j + 1))))"
  shows "find_bracket t fs = Some (fs ! i, fs ! (i + 1))"
  using assms
proof (induction t fs arbitrary: i rule: find_bracket.induct)
  case (1 t a b rest)
  show ?case
  proof (cases i)
    case 0
    then show ?thesis using "1.prems" by simp
  next
    case (Suc k)
    have no: "\<not> (js_ge t (ktime a) \<and> js_le t (ktime b))"
      using "1.prems"(4) Suc by (auto dest: spec[of _ 0])
    have "find_bracket t (b # rest) = Some ((b # rest) ! k, (b # rest) ! (k + 1))"
    proof (rule "1.IH"[OF no])
      show "k + 1 < length (b # rest)" using "1.prems"(1) Suc by simp
      show "js_ge t (ktime ((b # rest) ! k))" using "1.prems"(2) Suc by simp
      show "js_le t (ktime ((b # rest) ! (k + 1)))" using "1.prems"(3) Suc by simp
      show "\<forall>j<k. \<not> (js_ge t (ktime ((b # rest) ! j)) \<and> js_le t (ktime ((b # rest) ! (j + 1))))"
      proof (intro allI impI)
        fix j assume "j < k"
        then have "Suc j < i" using Suc by simp
        from "1.prems"(4)[rule_format, OF this] show
          "\<not> (js_ge t (ktime ((b # rest) ! j)) \<and> js_le t (ktime ((b # rest) ! (j + 1))))"
          by simp
      qed
    qed
    then show ?thesis using no Suc by auto
  qed
next
  case (2 t a)
  then show ?case by simp
next
  case (3 t)
  then show ?case by simp
qed

lemma find_bracket_none:
  assumes "\<forall>j. j + 1 < length fs \<longrightarrow> \<not> (js_ge t (ktime (fs ! j)) \<and> js_le t (ktime (fs ! (j + 1))))"
  shows "find_bracket t fs = None"
  using assms
proof (induction t fs rule: find_bracket.induct)
  case (1 t a b rest)
  have no: "\<not> (js_ge t (ktime a) \<and> js_le t (ktime b))"
    using "1.prems"[rule_format, of 0] by simp
  have "find_bracket t (b # rest) = None"
  proof (rule "1.IH"[OF no], intro allI impI)
    fix j assume "j + 1 < length (b # rest)"
    then have "Suc j + 1 < length (a # b # rest)" by simp
    from "1.prems"[rule_format, OF this] show
      "\<not> (js_ge t (ktime ((b # rest) ! j)) \<and> js_le t (ktime ((b # rest) ! (j + 1))))"
      by simp
  qed
  then show ?case using no by simp
next
  case (2 t a)
  then show ?case by simp
next
  case (3 t)
  then show ?case by simp
qed

lemma bracket_brackets:
  assumes "find_bracket t fs = Some (f1, f2)"
  shows "\<exists>i. i + 1 < length fs \<and> f1 = fs ! i \<and> f2 = fs ! (i + 1)
           \<and> js_ge t (ktime f1) \<and> js_le t (ktime f2)
           \<and> (\<forall>j<i. \<not> (js_ge t (ktime (fs ! j)) \<and> js_le t (ktime (fs ! (j + 1)))))"
  using assms
proof (induction t fs rule: find_bracket.induct)
  case (1 t a b rest)
  show ?case
  proof (cases "js_ge t (ktime a) \<and> js_le t (ktime b)")
    case True
    then have "f1 = a" and "f2 = b" using "1.prems" by simp_all
    then show ?thesis using True by (intro exI[where x = 0]) simp
  next
    case False
    then have "find_bracket t (b # rest) = Some (f1, f2)" using "1.prems" by auto
    from "1.IH"[OF False this] obtain k where k: "k + 1 < length (b # rest)"
      "f1 = (b # rest) ! k" "f2 = (b # rest) ! (k + 1)"
      "js_ge t (ktime f1)" "js_le t (ktime f2)"
      "\<forall>j<k. \<not> (js_ge t (ktime ((b # rest) ! j)) \<and> js_le t (ktime ((b # rest) ! (j + 1))))"
      by blast
    have "\<forall>j<Suc k. \<not> (js_ge t (ktime ((a # b # rest) ! j)) \<and> js_le t (ktime ((a # b # rest) ! (j + 1))))"
    proof (intro allI impI)
      fix j assume lt: "j < Suc k"
      show "\<not> (js_ge t (ktime ((a # b # rest) ! j)) \<and> js_le t (ktime ((a # b # rest) ! (j + 1))))"
      proof (cases j)
        case 0
        then show ?thesis using False by simp
      next
        case (Suc m)
        then have "m < k" using lt by simp
        then show ?thesis using k(6) Suc by simp
      qed
    qed
    then show ?thesis using k(1-5) by (intro exI[where x = "Suc k"]) simp
  qed
next
  case (2 t a)
  then show ?case by simp
next
  case (3 t)
  then show ?case by simp
qed

text \<open>
  C6: take an unfinished frame of an active clip with keyframes \<open>fs\<close>, and let \<open>t\<close>
  be its effective time. Let \<open>(f1, f2)\<close> be the bracketing keyframes of \<open>t\<close>: the
  first adjacent pair \<open>(fs[i], fs[i + 1])\<close> with \<open>f1.time \<le> t \<le> f2.time\<close>, or the
  first and the last keyframe when no adjacent pair encloses \<open>t\<close>. Then the frame
  writes, to every joint named in \<open>f1\<close> or in \<open>f2\<close> that has a settable handle,
  \<open>lerp(v1, v2, alpha)\<close>, where a value missing from a keyframe counts as 0 and
  \<open>alpha = min(1, max(0, (t - f1.time) / max(0.001, f2.time - f1.time)))\<close>.
\<close>

theorem clip_block_writes_lerp:
  assumes "robotRef st = Some r" and "clipRef st = Some pb"
    and "cframes (pclip pb) = fs" and "fs \<noteq> []"
    and "cloop (pclip pb) \<or> now - pstart pb < ktime (last fs)"
    and "t = effective_time (pclip pb) (now - pstart pb) (ktime (last fs))"
    and "(i + 1 < length fs \<and> f1 = fs ! i \<and> f2 = fs ! (i + 1)
            \<and> js_ge t (ktime f1) \<and> js_le t (ktime f2)
            \<and> (\<forall>j<i. \<not> (js_ge t (ktime (fs ! j)) \<and> js_le t (ktime (fs ! (j + 1))))))
         \<or> ((\<forall>j. j + 1 < length fs \<longrightarrow>
                  \<not> (js_ge t (ktime (fs ! j)) \<and> js_le t (ktime (fs ! (j + 1)))))
            \<and> f1 = hd fs \<and> f2 = last fs)"
    and "n \<in> fst ` set (kjoints f1) \<union> fst ` set (kjoints f2)"
    and "jointMapRef st n = Some j" and "settable j"
  shows "\<exists>st'. clip_block now st = Inr st' \<and>
           jointMapRef st' n = Some (j\<lparr>jointValue := Some
             (lerp (Num (case map_of (kjoints f1) n of None \<Rightarrow> 0 | Some a \<Rightarrow> a))
                   (Num (case map_of (kjoints f2) n of None \<Rightarrow> 0 | Some a \<Rightarrow> a))
                   (math_min (Num 1) (math_max (Num 0)
                      (num_div (num_sub t (Num (ktime f1)))
                         (max (1 / 1000) (ktime f2 - ktime f1))))))\<rparr>)"
proof -
  have br: "bracket t fs = (f1, f2)"
    using assms(7) by (auto simp add: bracket_def find_bracket_first find_bracket_none)
  have "n \<in> set (jointNames f1 f2)"
    using assms(8) by (simp add: jointNames_def set_uniq)
  then show ?thesis
    using clip_block_unfinished[of st r pb now f1 f2] assms(1-6,9,10) br
    by (simp add: foldl_write_joint write_joint_same setJointValue_def alpha_of_def span_of_def
        joint_or_zero_def)
qed

text \<open>
  C6 at the intro pose of the hero viewer, two seconds in. The clip has keyframes at
  0, 0.8 and 5 seconds; the first pair does not enclose 2, so the bracket is the second
  pair, \<open>i = 1\<close>, and \<open>alpha = (2 - 0.8) / 4.2 = 2/7\<close>. The upper-arm roll joint is
  named in the second keyframe with -3.07 and not in the third, so it receives
  \<open>lerp(-3.07, 0, 2/7) = -307/140\<close>.
\<close>

theorem clip_block_writes_lerp_witness:
  "\<exists>st'. clip_block 2 intro_viewer = Inr st' \<and>
     jointMapRef st' ''upperarm_roll_joint'' =
       Some (plain_joint\<lparr>jointValue := Some (Num (- (307 / 140)))\<rparr>)"
proof -
  let ?pb = "\<lparr>pclip = introPoseClip, pstart = 0\<rparr>"
  let ?fs = "cframes introPoseClip"
  have h1: "robotRef intro_viewer = Some 0"
    and h2: "clipRef intro_viewer = Some ?pb"
    and h9: "jointMapRef intro_viewer ''upperarm_roll_joint'' = Some plain_joint"
    by (simp_all add: intro_viewer_def)
  have h3: "cframes (pclip ?pb) = ?fs" by simp
  have h4: "?fs \<noteq> []"
    and h5: "cloop (pclip ?pb) \<or> 2 - pstart ?pb < ktime (last ?fs)"
    and h6: "Num 2 = effective_time (pclip ?pb) (2 - pstart ?pb) (ktime (last ?fs))"
    by (simp_all add: introPoseClip_def effective_time_def)
  have first: "\<forall>j<(1::nat). \<not> (js_ge (Num 2) (ktime (?fs ! j)) \<and> js_le (Num 2) (ktime (?fs ! (j + 1))))"
    by (simp add: introPoseClip_def)
  have h7: "((1::nat) + 1 < length ?fs \<and> ?fs ! 1 = ?fs ! 1 \<and> ?fs ! 2 = ?fs ! (1 + 1)
            \<and> js_ge (Num 2) (ktime (?fs ! 1)) \<and> js_le (Num 2) (ktime (?fs ! 2))
            \<and> (\<forall>j<1. \<not> (js_ge (Num 2) (ktime (?fs ! j)) \<and> js_le (Num 2) (ktime (?fs ! (j + 1))))))
         \<or> ((\<forall>j. j + 1 < length ?fs \<longrightarrow>
                  \<not> (js_ge (Num 2) (ktime (?fs ! j)) \<and> js_le (Num 2) (ktime (?fs ! (j + 1)))))
            \<and> ?fs ! 1 = hd ?fs \<and> ?fs ! 2 = last ?fs)"
    using first by (simp add: introPoseClip_def)
  have h8: "''upperarm_roll_joint'' \<in> fst ` set (kjoints (?fs ! 1)) \<union> fst ` set (kjoints (?fs ! 2))"
    by (simp add: introPoseClip_def)
  have h10: "settable plain_joint" by (simp add: plain_joint_def)
  show ?thesis
    using clip_block_writes_lerp[OF h1 h2 h3 h4 h5 h6 h7 h8 h9 h10]
    by (simp add: introPoseClip_def lerp_def)
qed

subsection \<open>C7: a sample before the first keyframe\<close>

text \<open>
  C7 as stated fails. The clip \<open>late_clip\<close> has its first keyframe \<open>{a: 1}\<close> at one
  second and its last keyframe \<open>{b: 5}\<close> at two. Half a second in, the frame writes
  joint \<open>a\<close> with 1 and also joint \<open>b\<close>, which the first keyframe does not name, with 0.
\<close>

theorem before_first_writes_other_joint_counterexample:
  "clip_block (1 / 2) late_viewer =
     Inr (late_viewer\<lparr>jointMapRef :=
            [''a'' \<mapsto> plain_joint\<lparr>jointValue := Some (Num 1)\<rparr>,
             ''b'' \<mapsto> plain_joint\<lparr>jointValue := Some (Num 0)\<rparr>]\<rparr>)
   \<and> map_of (kjoints (hd (cframes late_clip))) ''b'' = None
   \<and> joint_angle late_viewer ''b'' = None"
  by (simp add: clip_defs late_viewer_def late_clip_def fresh_viewer_def joint_angle_def)

text \<open>
  C7, amended: for every clip with at least one keyframe and non-decreasing times and
  every unfinished frame with a finite effective time \<open>x\<close>: \<open>x\<close> is never after the
  last keyframe's time (keyframe times not being negative); and when \<open>x\<close> is before the
  first keyframe's time, the frame writes exactly the joints named in the first or in
  the last keyframe (those with a settable handle): a joint named in the first keyframe
  receives the first keyframe's value, a joint named only in the last keyframe receives
  0, and every other joint is left as it was.
\<close>

theorem before_first_keyframe_sample:
  assumes "robotRef st = Some r" and "clipRef st = Some pb"
    and "cframes (pclip pb) = fs" and "fs \<noteq> []"
    and "sorted (map ktime fs)"
    and "cloop (pclip pb) \<or> now - pstart pb < ktime (last fs)"
    and "effective_time (pclip pb) (now - pstart pb) (ktime (last fs)) = Num x"
  shows "(0 \<le> ktime (last fs) \<longrightarrow> x \<le> ktime (last fs)) \<and>
         (x < ktime (hd fs) \<longrightarrow>
           (\<exists>st'. clip_block now st = Inr st' \<and>
             (\<forall>n. jointMapRef st' n =
                (case jointMapRef st n of
                   None \<Rightarrow> None
                 | Some j \<Rightarrow>
                     if settable j \<and> n \<in> fst ` set (kjoints (hd fs)) \<union> fst ` set (kjoints (last fs))
                     then Some (j\<lparr>jointValue := Some (Num
                            (case map_of (kjoints (hd fs)) n of None \<Rightarrow> 0 | Some a \<Rightarrow> a))\<rparr>)
                     else Some j))))"
proof (intro conjI impI)
  assume "0 \<le> ktime (last fs)"
  then show "x \<le> ktime (last fs)"
    using assms(7) by (rule effective_time_not_after_last)
next
  assume before: "x < ktime (hd fs)"
  have "\<forall>f \<in> set fs. x < ktime f"
    using sorted_hd_least[OF assms(5,4)] before by fastforce
  then have br: "bracket (Num x) fs = (hd fs, last fs)"
    by (simp add: bracket_def find_bracket_before)
  have eq: "clip_block now st =
      Inr (st\<lparr>jointMapRef := foldl (write_joint (hd fs) (last fs) (alpha_of (Num x) (hd fs) (last fs)))
             (jointMapRef st) (jointNames (hd fs) (last fs))\<rparr>)"
    using clip_block_unfinished[of st r pb now "hd fs" "last fs"] assms(1-4,6,7) br by simp
  show "\<exists>st'. clip_block now st = Inr st' \<and>
             (\<forall>n. jointMapRef st' n =
                (case jointMapRef st n of
                   None \<Rightarrow> None
                 | Some j \<Rightarrow>
                     if settable j \<and> n \<in> fst ` set (kjoints (hd fs)) \<union> fst ` set (kjoints (last fs))
                     then Some (j\<lparr>jointValue := Some (Num
                            (case map_of (kjoints (hd fs)) n of None \<Rightarrow> 0 | Some a \<Rightarrow> a))\<rparr>)
                     else Some j))"
    unfolding eq
    by (simp add: foldl_write_joint write_joint_same alpha_before[OF before] lerp_zero
        jointNames_def set_uniq setJointValue_def joint_or_zero_def split: option.splits)
qed

text \<open>
  The amended C7 at \<open>late_viewer\<close>, half a second in: joint \<open>a\<close> holds the first
  keyframe's 1, joint \<open>b\<close> holds 0 and no other joint exists.
\<close>

theorem before_first_keyframe_sample_witness:
  "\<exists>st'. clip_block (1 / 2) late_viewer = Inr st' \<and>
     jointMapRef st' ''a'' = Some (plain_joint\<lparr>jointValue := Some (Num 1)\<rparr>) \<and>
     jointMapRef st' ''b'' = Some (plain_joint\<lparr>jointValue := Some (Num 0)\<rparr>) \<and>
     jointMapRef st' ''c'' = None"
proof -
  let ?pb = "\<lparr>pclip = late_clip, pstart = 0\<rparr>"
  have h1: "robotRef late_viewer = Some 0"
    and h2: "clipRef late_viewer = Some ?pb"
    by (simp_all add: late_viewer_def)
  have h3: "cframes (pclip ?pb) = cframes late_clip"
    and h4: "cframes late_clip \<noteq> []"
    and h5: "sorted (map ktime (cframes late_clip))"
    and h6: "cloop (pclip ?pb) \<or> 1 / 2 - pstart ?pb < ktime (last (cframes late_clip))"
    and h7: "effective_time (pclip ?pb) (1 / 2 - pstart ?pb) (ktime (last (cframes late_clip)))
               = Num (1 / 2)"
    and h8: "1 / 2 < ktime (hd (cframes late_clip))"
    by (simp_all add: late_clip_def effective_time_def)
  obtain st' where run: "clip_block (1 / 2) late_viewer = Inr st'"
    and all: "\<And>n. jointMapRef st' n =
              (case jointMapRef late_viewer n of
                 None \<Rightarrow> None
               | Some j \<Rightarrow>
                   if settable j \<and> n \<in> fst ` set (kjoints (hd (cframes late_clip)))
                        \<union> fst ` set (kjoints (last (cframes late_clip)))
                   then Some (j\<lparr>jointValue := Some (Num
                          (case map_of (kjoints (hd (cframes late_clip))) n of
                             None \<Rightarrow> 0 | Some a \<Rightarrow> a))\<rparr>)
                   else Some j)"
    using before_first_keyframe_sample[OF h1 h2 h3 h4 h5 h6 h7] h8 by blast
  have "jointMapRef st' ''a'' = Some (plain_joint\<lparr>jointValue := Some (Num 1)\<rparr>)"
    unfolding all by (simp add: late_viewer_def late_clip_def plain_joint_def)
  moreover have "jointMapRef st' ''b'' = Some (plain_joint\<lparr>jointValue := Some (Num 0)\<rparr>)"
    unfolding all by (simp add: late_viewer_def late_clip_def plain_joint_def)
  moreover have "jointMapRef st' ''c'' = None"
    unfolding all by (simp add: late_viewer_def)
  ultimately show ?thesis using run by blast
qed

subsection \<open>C3: a looping clip of duration 0\<close>

text \<open>
  C3 fails on the code. For the looping clip \<open>still_clip\<close>, whose only keyframe is at
  time 0, the effective time one second in is \<open>1 % 0\<close>, which is NaN; the span is
  floored to 0.001, but \<open>alpha\<close> is NaN all the same, and the frame writes NaN to joint
  \<open>a\<close> instead of the keyframe's value 1.
\<close>

theorem zero_duration_loop_writes_nan:
  "effective_time still_clip 1 (ktime (last (cframes still_clip))) = NaN
   \<and> clip_block 1 still_viewer =
       Inr (still_viewer\<lparr>jointMapRef := [''a'' \<mapsto> plain_joint\<lparr>jointValue := Some NaN\<rparr>]\<rparr>)
   \<and> \<not> is_finite NaN"
  by (simp add: clip_defs still_viewer_def still_clip_def fresh_viewer_def js_rem_def)

section \<open>Properties of the head follow\<close>











text \<open>With no clip playing and interaction enabled, a frame is the head follow.\<close>

lemma clipRunner_frame_idle:
  assumes "clipRef v = None"
  shows "clipRunner_frame True now_ms v =
           Inr ((capture_defaults v)\<lparr>jointMapRef :=
                  head_follow hero_smoothing True (headTargetRef v) (jointMapRef v)\<rparr>)"
  using assms
  by (simp add: clipRunner_frame_def intro_block_def clip_block_def capture_defaults_def Let_def
      split: option.splits)

subsection \<open>C9: the head joints approach the edge angles\<close>



section \<open>Properties of the orbit controls\<close>

lemma polar_bounds: "1 / 1000000 \<le> maxPolarAngle" "maxPolarAngle \<le> pi - 1 / 1000000"
  "0 \<le> maxPolarAngle" "maxPolarAngle \<le> pi" "maxPolarAngle < pi / 2"
  using pi_ge_two by (simp_all add: maxPolarAngle_def)

lemma cos_limit_pos: "0 < cos maxPolarAngle"
proof (rule cos_gt_zero_pi)
  show "- (pi / 2) < maxPolarAngle" using polar_bounds(3) pi_gt_zero by linarith
  show "maxPolarAngle < pi / 2" by (rule polar_bounds(5))
qed

lemma sin_limit_pos: "0 < sin maxPolarAngle"
proof (rule sin_gt_zero)
  show "0 < maxPolarAngle" using polar_bounds(1) by linarith
  show "maxPolarAngle < pi" using polar_bounds(2) by linarith
qed

lemma sin_cos_limit:
  "sin maxPolarAngle * sin maxPolarAngle + cos maxPolarAngle * cos maxPolarAngle = 1"
  using sin_cos_squared_add[of maxPolarAngle] by (simp add: power2_eq_square)

lemma sin_limit_less_one: "sin maxPolarAngle < 1"
proof -
  have "0 < cos maxPolarAngle * cos maxPolarAngle"
    using cos_limit_pos by simp
  then have "(sin maxPolarAngle)\<^sup>2 < 1\<^sup>2"
    using sin_cos_limit by (simp add: power2_eq_square)
  then show ?thesis
    by (rule power_less_imp_less_base) simp
qed

lemma square_le_imp_le: "0 \<le> b \<Longrightarrow> 0 \<le> d \<Longrightarrow> b * b \<le> d * d \<Longrightarrow> b \<le> (d::real)"
  using abs_le_square_iff[of b d] by (simp add: power2_eq_square)

text \<open>
  A camera in the vertical plane through the target that stands at or below the
  polar limit (\<open>b / a \<le> cos maxPolarAngle / sin maxPolarAngle\<close> for the offset
  \<open>(a, b, 0)\<close>, so its polar angle is at least \<open>maxPolarAngle\<close>) is lifted by
  \<open>update()\<close> onto the limit, at the same distance from the target.
\<close>

lemma orbit_update_at_limit:
  assumes "0 < a" and "0 \<le> b" and "b * sin maxPolarAngle \<le> a * cos maxPolarAngle"
  shows "orbit_update (tx + a, ty + b, tz) (tx, ty, tz) =
           (tx + sqrt (a * a + b * b) * sin maxPolarAngle,
            ty + sqrt (a * a + b * b) * cos maxPolarAngle, tz)"
proof -
  define r where "r = sqrt (a * a + b * b)"
  define c where "c = cos maxPolarAngle"
  define s where "s = sin maxPolarAngle"
  have cpos: "0 < c" and spos: "0 < s"
    using cos_limit_pos sin_limit_pos by (simp_all add: c_def s_def)
  have rpos: "0 < r" unfolding r_def using assms(1) by (simp add: add_pos_nonneg)
  have rr: "r * r = a * a + b * b" unfolding r_def by simp
  have bs: "b * s \<le> a * c" and bs0: "0 \<le> b * s" and ac0: "0 \<le> a * c"
    using assms spos cpos by (simp_all add: s_def c_def)
  have "(b * s) * (b * s) \<le> (a * c) * (a * c)"
    by (rule mult_mono[OF bs bs ac0 bs0])
  moreover have "s * s = 1 - c * c"
    using sin_cos_squared_add[of maxPolarAngle] by (simp add: power2_eq_square s_def c_def)
  ultimately have "b * b * (1 - c * c) \<le> a * a * (c * c)"
    by (simp add: mult_ac)
  then have "b * b \<le> (r * c) * (r * c)"
    unfolding mult.assoc[symmetric] by (simp add: rr algebra_simps)
  moreover have "0 \<le> r * c" using rpos cpos by simp
  ultimately have "b \<le> r * c"
    using assms(2) square_le_imp_le[of b "r * c"] by blast
  then have le: "b / r \<le> c" using rpos by (simp add: pos_divide_le_eq mult.commute)
  have ge: "0 \<le> b / r" using assms(2) rpos by simp
  have c1: "c \<le> 1" unfolding c_def by simp
  have le1: "b / r \<le> 1" using le c1 by linarith
  have cl: "clamp (b / r) (- 1) 1 = b / r"
    using ge le1 by (simp add: clamp_def)
  have "arccos c \<le> arccos (b / r)"
    using le ge le1 cpos c1 by (subst arccos_le_mono) simp_all
  then have phi: "maxPolarAngle \<le> arccos (b / r)"
    using polar_bounds unfolding c_def by (simp add: arccos_cos)
  have phi1: "max 0 (min maxPolarAngle (arccos (b / r))) = maxPolarAngle"
    using phi polar_bounds by simp
  have phi2: "max (1 / 1000000) (min (pi - 1 / 1000000) maxPolarAngle) = maxPolarAngle"
    using polar_bounds by simp
  have h: "sqrt (a * a) = a" using assms(1) by simp
  have "orbit_update (tx + a, ty + b, tz) (tx, ty, tz) =
          (tx + sin maxPolarAngle * r, ty + cos maxPolarAngle * r, tz)"
  proof -
    have nz: "r \<noteq> 0" "a \<noteq> 0" using rpos assms(1) by simp_all
    have off: "tx + a - tx = a" "ty + b - ty = b" "tz - tz = 0" by simp_all
    have aa: "a / a = 1" using nz(2) by simp
    show ?thesis
      unfolding orbit_update_def Let_def prod.case off
      by (simp only: mult_zero_left add_0_right r_def[symmetric] h nz if_False cl phi1 phi2
          aa mult_1_right mult_zero_right div_0)
  qed
  then show ?thesis by (simp add: r_def mult.commute)
qed

lemma orbit_update_level:
  assumes "0 < a"
  shows "orbit_update (tx + a, ty, tz) (tx, ty, tz) =
           (tx + a * sin maxPolarAngle, ty + a * cos maxPolarAngle, tz)"
proof -
  have "0 * sin maxPolarAngle \<le> a * cos maxPolarAngle"
    using assms cos_limit_pos by simp
  from orbit_update_at_limit[OF assms _ this, of tx ty tz] assms show ?thesis by simp
qed


text \<open>The same for the look target \<open>(0, 1, 0)\<close> of the hero viewer.\<close>

lemma orbit_update_plane:
  assumes "0 < a" and "0 \<le> b" and "b * sin maxPolarAngle \<le> a * cos maxPolarAngle"
  shows "orbit_update (a, 1 + b, 0) (0, 1, 0) = limit_pose (sqrt (a * a + b * b))"
  using orbit_update_at_limit[OF assms, of 0 1 0] by (simp add: limit_pose_def)

lemma orbit_intro_start: "orbit_update (1 / 2, 1, 0) (0, 1, 0) = limit_pose (1 / 2)"
  using orbit_update_level[of "1 / 2" 0 1 0] by (simp add: limit_pose_def)

lemma orbit_default: "orbit_update (2, 1, 0) (0, 1, 0) = limit_pose 2"
  using orbit_update_level[of 2 0 1 0] by (simp add: limit_pose_def)

lemma limit_pose_inj: "limit_pose r = limit_pose r' \<longleftrightarrow> r = r'"
  using sin_limit_pos by (auto simp add: limit_pose_def)

text \<open>
  Where \<open>update()\<close> puts the camera on its way from \<open>limit_pose (1 / 2)\<close> to
  \<open>(2, 1, 0)\<close>, at the eased progress \<open>e\<close>: the interpolated point is
  \<open>(k sin m + 2 e, 1 + k cos m, 0)\<close> with \<open>k = (1 - e) / 2\<close> and \<open>m\<close> the polar
  limit, and its distance from the target has the square
  \<open>k\<^sup>2 + 4 e k sin m + 4 e\<^sup>2\<close>.
\<close>

lemma reset_pose:
  assumes "0 \<le> e" and "e \<le> 1"
  shows "orbit_update (lerpVectors (limit_pose (1 / 2)) (2, 1, 0) e) (0, 1, 0) =
           limit_pose (sqrt ((1 - e) * (1 - e) / 4 + 2 * e * (1 - e) * sin maxPolarAngle + 4 * (e * e)))"
proof -
  define s where "s = sin maxPolarAngle"
  define c where "c = cos maxPolarAngle"
  define k where "k = (1 - e) / 2"
  have spos: "0 < s" and cpos: "0 < c"
    using sin_limit_pos cos_limit_pos by (simp_all add: s_def c_def)
  have sc: "s * s + c * c = 1" using sin_cos_limit by (simp add: s_def c_def)
  have k0: "0 \<le> k" using assms(2) by (simp add: k_def)
  have pt: "lerpVectors (limit_pose (1 / 2)) (2, 1, 0) e = (k * s + 2 * e, 1 + k * c, 0)"
    by (simp add: limit_pose_def s_def c_def k_def field_simps)
  have a: "0 < k * s + 2 * e"
  proof (cases "e = 0")
    case True
    then show ?thesis using spos by (simp add: k_def)
  next
    case False
    then have "0 < 2 * e" using assms(1) by simp
    moreover have "0 \<le> k * s" using k0 spos by simp
    ultimately show ?thesis by linarith
  qed
  have b: "0 \<le> k * c" using k0 cpos by simp
  have "0 \<le> 2 * e * c" using assms(1) cpos by simp
  then have lim: "k * c * s \<le> (k * s + 2 * e) * c" by (simp add: algebra_simps)
  have "(k * s + 2 * e) * (k * s + 2 * e) + k * c * (k * c)
          = k * k * (s * s + c * c) + 4 * e * k * s + 4 * (e * e)"
    by (simp add: algebra_simps)
  also have "\<dots> = (1 - e) * (1 - e) / 4 + 2 * e * (1 - e) * s + 4 * (e * e)"
    unfolding sc by (simp add: k_def field_simps)
  finally have r: "(k * s + 2 * e) * (k * s + 2 * e) + k * c * (k * c)
          = (1 - e) * (1 - e) / 4 + 2 * e * (1 - e) * s + 4 * (e * e)" .
  have op: "orbit_update (k * s + 2 * e, 1 + k * c, 0) (0, 1, 0) =
      limit_pose (sqrt ((k * s + 2 * e) * (k * s + 2 * e) + k * c * (k * c)))"
  proof (rule orbit_update_plane)
    show "0 < k * s + 2 * e" by (rule a)
    show "0 \<le> k * c" by (rule b)
    show "k * c * sin maxPolarAngle \<le> (k * s + 2 * e) * cos maxPolarAngle"
      using lim by (simp add: s_def c_def)
  qed
  show ?thesis unfolding pt op r by (simp add: s_def)
qed

lemma reset_pose_2300:
  "orbit_update (lerpVectors (limit_pose (1 / 2)) (2, 1, 0) (1 / 8)) (0, 1, 0) =
     limit_pose (sqrt (65 / 256 + 7 * sin maxPolarAngle / 32))"
proof -
  have "(1 - 1 / 8) * (1 - 1 / 8) / 4 + 2 * (1 / 8) * (1 - 1 / 8) * sin maxPolarAngle + 4 * (1 / 8 * (1 / 8))
          = 65 / 256 + 7 * sin maxPolarAngle / (32::real)"
    by simp
  then show ?thesis using reset_pose[of "1 / 8"] by simp
qed

lemma reset_pose_2600:
  "orbit_update (lerpVectors (limit_pose (1 / 2)) (2, 1, 0) (1 / 2)) (0, 1, 0) =
     limit_pose (sqrt (17 / 16 + sin maxPolarAngle / 2))"
proof -
  have "(1 - 1 / 2) * (1 - 1 / 2) / 4 + 2 * (1 / 2) * (1 - 1 / 2) * sin maxPolarAngle + 4 * (1 / 2 * (1 / 2))
          = 17 / 16 + sin maxPolarAngle / (2::real)"
    by simp
  then show ?thesis using reset_pose[of "1 / 2"] by simp
qed

lemma radius_2300: "1 / 4 < sqrt (65 / 256 + 7 * sin maxPolarAngle / 32)"
  "sqrt (65 / 256 + 7 * sin maxPolarAngle / 32) < 11 / 16"
proof -
  have "(1 / 4)\<^sup>2 < 65 / 256 + 7 * sin maxPolarAngle / 32"
    using sin_limit_pos by (simp add: power2_eq_square)
  then show "1 / 4 < sqrt (65 / 256 + 7 * sin maxPolarAngle / 32)"
    by (rule real_less_rsqrt)
  have "65 / 256 + 7 * sin maxPolarAngle / 32 < (11 / 16)\<^sup>2"
    using sin_limit_less_one by (simp add: power2_eq_square)
  then show "sqrt (65 / 256 + 7 * sin maxPolarAngle / 32) < 11 / 16"
    by (rule real_less_lsqrt[rotated]) simp
qed

lemma radius_2600: "1 < sqrt (17 / 16 + sin maxPolarAngle / 2)"
  "sqrt (17 / 16 + sin maxPolarAngle / 2) < 5 / 4"
proof -
  have "1\<^sup>2 < 17 / 16 + sin maxPolarAngle / 2"
    using sin_limit_pos by simp
  then show "1 < sqrt (17 / 16 + sin maxPolarAngle / 2)"
    by (rule real_less_rsqrt)
  have "17 / 16 + sin maxPolarAngle / 2 < (5 / 4)\<^sup>2"
    using sin_limit_less_one by (simp add: power2_eq_square)
  then show "sqrt (17 / 16 + sin maxPolarAngle / 2) < 5 / 4"
    by (rule real_less_lsqrt[rotated]) simp
qed


section \<open>Properties of the inactivity reset\<close>


lemma eased_one: "eased 1 = 1"
  by (simp add: eased_def)

lemma lerpVectors_one: "lerpVectors a b 1 = b"
  by (cases a, cases b) simp

lemma animate_early:
  assumes "controlsRef_set v" and "now < rc_start cl + 1200"
  shows "animate cl now v =
           (v\<lparr>camera_position :=
                orbit_update
                  (lerpVectors (rc_startPos cl) (rc_endPos cl) (eased ((now - rc_start cl) / 1200)))
                  (lerpVectors (rc_startTarget cl) (rc_endTarget cl) (eased ((now - rc_start cl) / 1200))),
              controls_target := lerpVectors (rc_startTarget cl) (rc_endTarget cl) (eased ((now - rc_start cl) / 1200)),
              animation_frames := animation_frames v @ [(next_handle v, cl)],
              next_handle := Suc (next_handle v),
              resetAnimRef := Some (next_handle v)\<rparr>, None)"
proof -
  have "(now - rc_start cl) / 1200 < 1" using assms(2) by simp
  then show ?thesis
    using assms(1) by (simp add: animate_def requestAnimationFrame_def Let_def min_def)
qed

lemma animate_done:
  assumes "controlsRef_set v" and "rc_start cl + 1200 \<le> now"
  shows "animate cl now v =
           (v\<lparr>camera_position := orbit_update (rc_endPos cl) (rc_endTarget cl),
              controls_target := rc_endTarget cl,
              resetAnimRef := None\<rparr>, None)"
proof -
  have "1 \<le> (now - rc_start cl) / 1200" using assms(2) by simp
  then show ?thesis
    using assms(1) by (simp add: animate_def Let_def min_def eased_one lerpVectors_one)
qed

lemma animate_unmounted:
  assumes "\<not> controlsRef_set v"
  shows "animate cl now v =
           (v\<lparr>camera_position :=
                lerpVectors (rc_startPos cl) (rc_endPos cl) (eased (min 1 ((now - rc_start cl) / 1200)))\<rparr>,
            Some TypeError)"
  using assms by (simp add: animate_def Let_def)

lemma run_frame_early:
  assumes "animation_frames v = [(h, cl)]" and "controlsRef_set v" and "now < rc_start cl + 1200"
  shows "run_frame now v =
           v\<lparr>camera_position :=
                orbit_update
                  (lerpVectors (rc_startPos cl) (rc_endPos cl) (eased ((now - rc_start cl) / 1200)))
                  (lerpVectors (rc_startTarget cl) (rc_endTarget cl) (eased ((now - rc_start cl) / 1200))),
             controls_target := lerpVectors (rc_startTarget cl) (rc_endTarget cl) (eased ((now - rc_start cl) / 1200)),
             animation_frames := [(next_handle v, cl)],
             next_handle := Suc (next_handle v),
             resetAnimRef := Some (next_handle v)\<rparr>"
  using assms by (simp add: run_frame_def animate_early)

lemma run_frame_done:
  assumes "animation_frames v = [(h, cl)]" and "controlsRef_set v" and "rc_start cl + 1200 \<le> now"
  shows "run_frame now v =
           v\<lparr>camera_position := orbit_update (rc_endPos cl) (rc_endTarget cl),
             controls_target := rc_endTarget cl,
             animation_frames := [], resetAnimRef := None\<rparr>"
  using assms by (simp add: run_frame_def animate_done)

lemma run_frame_unmounted:
  assumes "animation_frames v = [(h, cl)]" and "\<not> controlsRef_set v"
  shows "run_frame now v =
           v\<lparr>camera_position :=
                lerpVectors (rc_startPos cl) (rc_endPos cl) (eased (min 1 ((now - rc_start cl) / 1200))),
             animation_frames := []\<rparr>"
  using assms by (simp add: run_frame_def animate_unmounted)






text \<open>A pointer trigger only re-arms the inactivity timeout.\<close>

lemma pointer_event_keeps_animation:
  "animation_frames (pointer_event now_ms v) = animation_frames v
   \<and> resetAnimRef (pointer_event now_ms v) = resetAnimRef v
   \<and> camera_position (pointer_event now_ms v) = camera_position v
   \<and> controlsRef_set (pointer_event now_ms v) = controlsRef_set v"
  by (simp add: pointer_event_def resetTimer_def setTimeout_def clearTimeout_def Let_def
      split: option.splits)

subsection \<open>The hero viewer from its mount to the end of a reset\<close>

lemmas trace_defs = idle_viewer_def fetch_template_def fresh_viewer_def inactivity_effect_def
  resetTimer_def setTimeout_def clearTimeout_def on_preloaded_def onReady_def onIntroCamera_def
  playClip_def introPoseClip_def introCamStart_def introCamEnd_def introCamTarget_def
  introCamDuration_def Let_def

lemma idle_state:
  "timers idle_viewer = [(1, 2000, ResetView), (2, 6100, WaveComplete)]"
  "camera_position idle_viewer = limit_pose (1 / 2)"
  "defaultCamPosRef idle_viewer = Some (2, 1, 0)"
  "defaultTargetRef idle_viewer = (0, 1, 0)"
  "controls_target idle_viewer = (0, 1, 0)"
  "cameraRef_set idle_viewer"
  "controlsRef_set idle_viewer"
  "animation_frames idle_viewer = []"
  "resetAnimRef idle_viewer = None"
  "next_handle idle_viewer = 3"
  "idle_timeout idle_viewer = Some 1"
  "listening idle_viewer"
  "scene idle_viewer = [0]"
  "robotRef idle_viewer = Some 0"
  "wave_complete_calls idle_viewer = 0"
  by (simp_all add: trace_defs orbit_intro_start)

lemma fired_state:
  "animation_frames (fire_timer 1 2000 idle_viewer) = [(3, reset_from_idle)]"
  "controlsRef_set (fire_timer 1 2000 idle_viewer)"
  "timers (fire_timer 1 2000 idle_viewer) = [(2, 6100, WaveComplete)]"
  "next_handle (fire_timer 1 2000 idle_viewer) = 4"
  "idle_timeout (fire_timer 1 2000 idle_viewer) = Some 1"
  "listening (fire_timer 1 2000 idle_viewer)"
  "scene (fire_timer 1 2000 idle_viewer) = [0]"
  "robotRef (fire_timer 1 2000 idle_viewer) = Some 0"
  "wave_complete_calls (fire_timer 1 2000 idle_viewer) = 0"
  by (simp_all add: fire_timer_def idle_state smoothReset_def clearTimeout_def
      requestAnimationFrame_def reset_from_idle_def Let_def)

lemma resetting_state:
  "camera_position resetting_viewer = limit_pose (sqrt (65 / 256 + 7 * sin maxPolarAngle / 32))"
  "animation_frames resetting_viewer = [(4, reset_from_idle)]"
  "resetAnimRef resetting_viewer = Some 4"
  "controlsRef_set resetting_viewer"
  "timers resetting_viewer = [(2, 6100, WaveComplete)]"
  "next_handle resetting_viewer = 5"
  "idle_timeout resetting_viewer = Some 1"
  "listening resetting_viewer"
  "scene resetting_viewer = [0]"
  "robotRef resetting_viewer = Some 0"
  "wave_complete_calls resetting_viewer = 0"
proof -
  have early: "2300 < rc_start reset_from_idle + 1200" by (simp add: reset_from_idle_def)
  note step = run_frame_early[OF fired_state(1) fired_state(2) early]
  have e: "eased ((2300 - rc_start reset_from_idle) / 1200) = 1 / 8"
    by (simp add: reset_from_idle_def eased_def)
  have tgt: "lerpVectors (rc_startTarget reset_from_idle) (rc_endTarget reset_from_idle) (1 / 8) = (0, 1, 0)"
    by (simp add: reset_from_idle_def)
  have pos: "orbit_update (lerpVectors (rc_startPos reset_from_idle) (rc_endPos reset_from_idle) (1 / 8)) (0, 1, 0)
      = limit_pose (sqrt (65 / 256 + 7 * sin maxPolarAngle / 32))"
    using reset_pose_2300 by (simp add: reset_from_idle_def)
  show "camera_position resetting_viewer = limit_pose (sqrt (65 / 256 + 7 * sin maxPolarAngle / 32))"
    "animation_frames resetting_viewer = [(4, reset_from_idle)]"
    "resetAnimRef resetting_viewer = Some 4"
    "controlsRef_set resetting_viewer"
    "timers resetting_viewer = [(2, 6100, WaveComplete)]"
    "next_handle resetting_viewer = 5"
    "idle_timeout resetting_viewer = Some 1"
    "listening resetting_viewer"
    "scene resetting_viewer = [0]"
    "robotRef resetting_viewer = Some 0"
    "wave_complete_calls resetting_viewer = 0"
    unfolding resetting_viewer_def step e tgt pos
    using fired_state by simp_all
qed

lemma touched_state:
  "camera_position (pointer_event 2400 resetting_viewer)
     = limit_pose (sqrt (65 / 256 + 7 * sin maxPolarAngle / 32))"
  "animation_frames (pointer_event 2400 resetting_viewer) = [(4, reset_from_idle)]"
  "resetAnimRef (pointer_event 2400 resetting_viewer) = Some 4"
  "controlsRef_set (pointer_event 2400 resetting_viewer)"
  "timers (pointer_event 2400 resetting_viewer) = [(2, 6100, WaveComplete), (5, 4400, ResetView)]"
  "next_handle (pointer_event 2400 resetting_viewer) = 6"
  "idle_timeout (pointer_event 2400 resetting_viewer) = Some 5"
  "listening (pointer_event 2400 resetting_viewer)"
  "scene (pointer_event 2400 resetting_viewer) = [0]"
  "robotRef (pointer_event 2400 resetting_viewer) = Some 0"
  "wave_complete_calls (pointer_event 2400 resetting_viewer) = 0"
  using resetting_state
  by (simp_all add: pointer_event_def resetTimer_def setTimeout_def clearTimeout_def Let_def)

lemma frame_2600_state:
  "camera_position (run_frame 2600 (pointer_event 2400 resetting_viewer))
     = limit_pose (sqrt (17 / 16 + sin maxPolarAngle / 2))"
  "animation_frames (run_frame 2600 (pointer_event 2400 resetting_viewer)) = [(6, reset_from_idle)]"
  "controlsRef_set (run_frame 2600 (pointer_event 2400 resetting_viewer))"
proof -
  have early: "2600 < rc_start reset_from_idle + 1200" by (simp add: reset_from_idle_def)
  note step = run_frame_early[OF touched_state(2) touched_state(4) early]
  have e: "eased ((2600 - rc_start reset_from_idle) / 1200) = 1 / 2"
    by (simp add: reset_from_idle_def eased_def)
  have tgt: "lerpVectors (rc_startTarget reset_from_idle) (rc_endTarget reset_from_idle) (1 / 2) = (0, 1, 0)"
    by (simp add: reset_from_idle_def)
  have pos: "orbit_update (lerpVectors (rc_startPos reset_from_idle) (rc_endPos reset_from_idle) (1 / 2)) (0, 1, 0)
      = limit_pose (sqrt (17 / 16 + sin maxPolarAngle / 2))"
    using reset_pose_2600 by (simp add: reset_from_idle_def)
  show "camera_position (run_frame 2600 (pointer_event 2400 resetting_viewer))
     = limit_pose (sqrt (17 / 16 + sin maxPolarAngle / 2))"
    "animation_frames (run_frame 2600 (pointer_event 2400 resetting_viewer)) = [(6, reset_from_idle)]"
    "controlsRef_set (run_frame 2600 (pointer_event 2400 resetting_viewer))"
    unfolding step e tgt pos
    using touched_state by simp_all
qed

lemma frame_3200_state:
  "camera_position (run_frame 3200 (run_frame 2600 (pointer_event 2400 resetting_viewer)))
     = limit_pose 2"
proof -
  have late: "rc_start reset_from_idle + 1200 \<le> 3200" by (simp add: reset_from_idle_def)
  note step = run_frame_done[OF frame_2600_state(2) frame_2600_state(3) late]
  have pos: "orbit_update (rc_endPos reset_from_idle) (rc_endTarget reset_from_idle) = limit_pose 2"
    using orbit_default by (simp add: reset_from_idle_def)
  show ?thesis unfolding step pos by simp
qed

lemma unmounted_state:
  "timers (unmount (pointer_event 2400 resetting_viewer)) = [(2, 6100, WaveComplete)]"
  "scene (unmount (pointer_event 2400 resetting_viewer)) = []"
  "wave_complete_calls (unmount (pointer_event 2400 resetting_viewer)) = 0"
  "animation_frames (unmount (pointer_event 2400 resetting_viewer)) = [(4, reset_from_idle)]"
  "camera_position (unmount (pointer_event 2400 resetting_viewer))
     = limit_pose (sqrt (65 / 256 + 7 * sin maxPolarAngle / 32))"
  "\<not> controlsRef_set (unmount (pointer_event 2400 resetting_viewer))"
  using touched_state
  by (simp_all add: unmount_def inactivity_cleanup_def fetchRobot_cleanup_def clearTimeout_def)

lemma unmounted_frame:
  "camera_position (run_frame 2600 (unmount (pointer_event 2400 resetting_viewer)))
     = (1 + sin maxPolarAngle / 4, 1 + cos maxPolarAngle / 4, 0)"
  "animation_frames (run_frame 2600 (unmount (pointer_event 2400 resetting_viewer))) = []"
proof -
  note step = run_frame_unmounted[OF unmounted_state(4) unmounted_state(6), of 2600]
  have e: "eased (min 1 ((2600 - rc_start reset_from_idle) / 1200)) = 1 / 2"
    by (simp add: reset_from_idle_def eased_def)
  have pos: "lerpVectors (rc_startPos reset_from_idle) (rc_endPos reset_from_idle) (1 / 2)
      = (1 + sin maxPolarAngle / 4, 1 + cos maxPolarAngle / 4, 0)"
    by (simp add: reset_from_idle_def limit_pose_def field_simps)
  show "camera_position (run_frame 2600 (unmount (pointer_event 2400 resetting_viewer)))
     = (1 + sin maxPolarAngle / 4, 1 + cos maxPolarAngle / 4, 0)"
    "animation_frames (run_frame 2600 (unmount (pointer_event 2400 resetting_viewer))) = []"
    unfolding step e pos by simp_all
qed

lemma unmounted_wave:
  "wave_complete_calls (fire_timer 2 6100 (unmount (pointer_event 2400 resetting_viewer))) = 1"
  using unmounted_state by (simp add: fire_timer_def clearTimeout_def)


subsection \<open>C8: the eased return to the default pose\<close>




subsection \<open>C4: a pointer trigger during the reset animation\<close>

text \<open>
  C4 fails on the code. In \<open>resetting_viewer\<close> the reset animation is in flight, with
  the camera on the polar limit at distance \<open>sqrt (65/256 + 7 sin (0.48 pi) / 32)\<close>,
  about 0.687, from the target, on its way from distance 0.5 to the default pose at
  distance 2. A pointer event at 2400 ms leaves the requested animation frame and its
  handle in place, and the frames at 2600 and 3200 ms move the camera on to distance
  \<open>sqrt (17/16 + sin (0.48 pi) / 2)\<close>, about 1.250, and to distance 2, where the
  reset ends.
\<close>

theorem pointer_trigger_leaves_reset_running:
  "resetAnimRef resetting_viewer = Some 4
  \<and> resetAnimRef (pointer_event 2400 resetting_viewer) = Some 4
  \<and> animation_frames (pointer_event 2400 resetting_viewer) = animation_frames resetting_viewer
  \<and> camera_position (pointer_event 2400 resetting_viewer)
      = limit_pose (sqrt (65 / 256 + 7 * sin maxPolarAngle / 32))
  \<and> camera_position (run_frame 2600 (pointer_event 2400 resetting_viewer))
      = limit_pose (sqrt (17 / 16 + sin maxPolarAngle / 2))
  \<and> camera_position (run_frame 3200 (run_frame 2600 (pointer_event 2400 resetting_viewer)))
      = limit_pose 2
  \<and> sqrt (65 / 256 + 7 * sin maxPolarAngle / 32) < 11 / 16
  \<and> 1 < sqrt (17 / 16 + sin maxPolarAngle / 2)
  \<and> sqrt (17 / 16 + sin maxPolarAngle / 2) < 5 / 4
  \<and> camera_position (run_frame 2600 (pointer_event 2400 resetting_viewer))
      \<noteq> camera_position (pointer_event 2400 resetting_viewer)
  \<and> camera_position (run_frame 3200 (run_frame 2600 (pointer_event 2400 resetting_viewer)))
      \<noteq> camera_position (run_frame 2600 (pointer_event 2400 resetting_viewer))"
proof -
  have "sqrt (17 / 16 + sin maxPolarAngle / 2) \<noteq> sqrt (65 / 256 + 7 * sin maxPolarAngle / 32)"
    using radius_2300(2) radius_2600(1) by linarith
  moreover have "2 \<noteq> sqrt (17 / 16 + sin maxPolarAngle / 2)"
    using radius_2600(2) by linarith
  ultimately show ?thesis
    unfolding resetting_state touched_state frame_2600_state frame_3200_state limit_pose_inj
    using radius_2300(2) radius_2600 by simp
qed

subsection \<open>C5: what is still pending after the unmount\<close>

text \<open>
  C5 fails on the code. Take \<open>resetting_viewer\<close> after a pointer event at 2400 ms has
  re-armed the inactivity timeout, and unmount it. The cleanups remove the robot from
  the scene and clear the inactivity timeout, but the timeout that calls
  \<open>onWaveComplete\<close> stays pending and calls it at 6100 ms, and the requested frame of
  the reset animation stays pending: at 2600 ms it writes the camera position, moving it
  to \<open>(1 + sin (0.48 pi) / 4, 1 + cos (0.48 pi) / 4, 0)\<close>, before it throws on the
  controls reference that the unmount has set to null.
\<close>

theorem unmount_leaves_callbacks_pending:
  "timers (pointer_event 2400 resetting_viewer) = [(2, 6100, WaveComplete), (5, 4400, ResetView)]
  \<and> timers (unmount (pointer_event 2400 resetting_viewer)) = [(2, 6100, WaveComplete)]
  \<and> scene (pointer_event 2400 resetting_viewer) = [0]
  \<and> scene (unmount (pointer_event 2400 resetting_viewer)) = []
  \<and> wave_complete_calls (unmount (pointer_event 2400 resetting_viewer)) = 0
  \<and> wave_complete_calls (fire_timer 2 6100 (unmount (pointer_event 2400 resetting_viewer))) = 1
  \<and> animation_frames (unmount (pointer_event 2400 resetting_viewer))
      = animation_frames resetting_viewer
  \<and> animation_frames resetting_viewer \<noteq> []
  \<and> camera_position (unmount (pointer_event 2400 resetting_viewer))
      = limit_pose (sqrt (65 / 256 + 7 * sin maxPolarAngle / 32))
  \<and> camera_position (run_frame 2600 (unmount (pointer_event 2400 resetting_viewer)))
      = (1 + sin maxPolarAngle / 4, 1 + cos maxPolarAngle / 4, 0)
  \<and> camera_position (run_frame 2600 (unmount (pointer_event 2400 resetting_viewer)))
      \<noteq> camera_position (unmount (pointer_event 2400 resetting_viewer))
  \<and> snd (animate reset_from_idle 2600 (unmount (pointer_event 2400 resetting_viewer)))
      = Some TypeError"
proof -
  have thrown: "snd (animate reset_from_idle 2600 (unmount (pointer_event 2400 resetting_viewer)))
      = Some TypeError"
    by (simp add: animate_unmounted[OF unmounted_state(6)])
  have "sqrt (65 / 256 + 7 * sin maxPolarAngle / 32) * cos maxPolarAngle \<noteq> cos maxPolarAngle / 4"
    using radius_2300(1) cos_limit_pos by simp
  then have "(1 + sin maxPolarAngle / 4, 1 + cos maxPolarAngle / 4, 0)
      \<noteq> limit_pose (sqrt (65 / 256 + 7 * sin maxPolarAngle / 32))"
    by (simp add: limit_pose_def)
  then show ?thesis
    unfolding unmounted_state unmounted_frame unmounted_wave touched_state resetting_state thrown
    by simp
qed

section \<open>Properties of loading\<close>

lemma ensure_all_cached:
  "fetchPreload m = Some p \<Longrightarrow> ensure_all cs m = (replicate (length cs) p, m)"
  by (induction cs) (auto simp add: ensureFetchPreload_def)

lemma fetchPreload_resolve: "fetchPreload (resolve p x m) = fetchPreload m"
  by (simp add: resolve_def)

lemma fetchPreload_loader_callback: "fetchPreload (loader_callback p ev m) = fetchPreload m"
  by (cases ev) (simp_all add: fetchPreload_resolve)

lemma load_calls_loader_callback: "load_calls (loader_callback p ev m) = load_calls m"
  by (cases ev) (simp_all add: resolve_def)

subsection \<open>C2: one load for the whole module\<close>

text \<open>
  C2 as stated fails for two distinct assets: the second caller receives the promise
  of the first asset, and no load of the second asset is ever started.
\<close>

theorem distinct_assets_share_one_load_counterexample:
  "ensure_all [(''/assets/a/'', ''/assets/a/a.urdf''), (''/assets/b/'', ''/assets/b/b.urdf'')]
     initial_module =
     ([0, 0], \<lparr>fetchPreload = Some 0, promises = [Pending],
               load_calls = [(''/assets/a/'', ''/assets/a/a.urdf'')]\<rparr>)"
  by (simp add: ensureFetchPreload_def initial_module_def)

text \<open>
  C2, amended: the load is started exactly once, by the first call of
  \<open>ensureFetchPreload\<close> and for the asset that call names; its promise is stored in
  the one variable \<open>fetchPreload\<close>, which is not keyed by the asset. Every other
  caller, before or after the load has answered and whichever asset it names, receives
  that same promise, and no further load is started.
\<close>

theorem single_load_shared_by_all_callers:
  "ensure_all ((assetsBase, urdfUrl) # cs) initial_module =
     (replicate (Suc (length cs)) 0,
      \<lparr>fetchPreload = Some 0, promises = [Pending], load_calls = [(assetsBase, urdfUrl)]\<rparr>)
   \<and> (\<forall>ev later.
        ensure_all later
          (loader_callback 0 ev
             \<lparr>fetchPreload = Some 0, promises = [Pending], load_calls = [(assetsBase, urdfUrl)]\<rparr>) =
        (replicate (length later) 0,
         loader_callback 0 ev
           \<lparr>fetchPreload = Some 0, promises = [Pending], load_calls = [(assetsBase, urdfUrl)]\<rparr>)
        \<and> load_calls (loader_callback 0 ev
             \<lparr>fetchPreload = Some 0, promises = [Pending], load_calls = [(assetsBase, urdfUrl)]\<rparr>)
            = [(assetsBase, urdfUrl)])"
proof -
  let ?m1 = "\<lparr>fetchPreload = Some 0, promises = [Pending], load_calls = [(assetsBase, urdfUrl)]\<rparr>"
  have first: "ensureFetchPreload assetsBase urdfUrl initial_module = (0, ?m1)"
    by (simp add: ensureFetchPreload_def initial_module_def)
  have "ensure_all cs ?m1 = (replicate (length cs) 0, ?m1)"
    by (rule ensure_all_cached) simp
  then have a: "ensure_all ((assetsBase, urdfUrl) # cs) initial_module = (replicate (Suc (length cs)) 0, ?m1)"
    using first by simp
  have b: "ensure_all later (loader_callback 0 ev ?m1) =
      (replicate (length later) 0, loader_callback 0 ev ?m1)" for ev later
    by (rule ensure_all_cached) (simp add: fetchPreload_loader_callback)
  show ?thesis using a b by (simp add: load_calls_loader_callback)
qed

subsection \<open>C10: a failed load is skipped\<close>

text \<open>
  C10: the promise of the load is never rejected: the loader's error callback fulfils
  it with null and its load callback with the robot. The consumer returns at once on
  null: the viewer is left exactly as it was, with nothing added to the scene, no joint
  registered, no timer set and no callback to the host page; on a robot it adds the
  clone to the scene and reports the load.
\<close>

theorem failed_load_resolves_null_and_is_skipped:
  "ensureFetchPreload assetsBase urdfUrl initial_module =
     (0, \<lparr>fetchPreload = Some 0, promises = [Pending], load_calls = [(assetsBase, urdfUrl)]\<rparr>)
   \<and> promises (loader_callback 0 OnError
        \<lparr>fetchPreload = Some 0, promises = [Pending], load_calls = [(assetsBase, urdfUrl)]\<rparr>)
       = [Fulfilled None]
   \<and> promises (loader_callback 0 (OnLoad robot)
        \<lparr>fetchPreload = Some 0, promises = [Pending], load_calls = [(assetsBase, urdfUrl)]\<rparr>)
       = [Fulfilled (Some robot)]
   \<and> then_preloaded now_ms (Fulfilled None) v = v
   \<and> then_preloaded now_ms
         (promises (loader_callback 0 OnError
            \<lparr>fetchPreload = Some 0, promises = [Pending], load_calls = [(assetsBase, urdfUrl)]\<rparr>) ! 0) v = v
   \<and> scene (then_preloaded now_ms (Fulfilled (Some robot)) v) = scene v @ [next_object v]
   \<and> loaded_calls (then_preloaded now_ms (Fulfilled (Some robot)) v) = Suc (loaded_calls v)"
  by (simp add: ensureFetchPreload_def initial_module_def resolve_def on_preloaded_def
      onReady_def onIntroCamera_def playClip_def setTimeout_def Let_def split: prod.splits)

end
